theory Spec2Isabelle
  imports Complex_Main "HOL-Library.Word"
begin

section \<open>JavaScript values\<close>

text \<open>
  The frontend consists of \<^verbatim>\<open>config.js\<close>, the API client \<^verbatim>\<open>api.js\<close> (class
  \<^verbatim>\<open>ApiService\<close>) and the controller \<^verbatim>\<open>main.js\<close> (class \<^verbatim>\<open>App\<close>).  The embedding
  keeps the names of the source.  What the browser supplies (the answer of \<^verbatim>\<open>fetch\<close>, the
  formatting of numbers, the clock, the elements of the page) is an argument of the
  functions below, never a fixed choice.  A function that changes the page, the console
  or the network takes the state of these and returns the new one; a function that may
  throw returns the error beside it.  The scroll position of the transcript, which
  \<^verbatim>\<open>appendMessage\<close> and \<^verbatim>\<open>showTypingIndicator\<close> set after appending, is not part of
  the state.
\<close>

subsection \<open>Strings\<close>

text \<open>A JavaScript string is a sequence of UTF-16 code units.\<close>

type_synonym jsstring = "16 word list"

definition js :: "string \<Rightarrow> jsstring" where
  "js s = map (\<lambda>c. of_nat (of_char c)) s"

text \<open>
  \<^verbatim>\<open>String.prototype.trim\<close> and the class \<^verbatim>\<open>\s\<close> of a regular expression use the same
  set: the WhiteSpace and LineTerminator code points of ECMAScript.
\<close>

definition is_space :: "16 word \<Rightarrow> bool" where
  "is_space c \<longleftrightarrow>
     c \<in> {0x0009, 0x000A, 0x000B, 0x000C, 0x000D, 0x0020, 0x00A0, 0x1680,
          0x2028, 0x2029, 0x202F, 0x205F, 0x3000, 0xFEFF}
     \<or> (0x2000 \<le> c \<and> c \<le> 0x200A)"

definition trim :: "jsstring \<Rightarrow> jsstring" where
  "trim s = rev (dropWhile is_space (rev (dropWhile is_space s)))"

text \<open>
  \<^verbatim>\<open>toUpperCase\<close> on the letters a to z.  The controller applies it to the notification
  types \<^verbatim>\<open>'success'\<close>, \<^verbatim>\<open>'error'\<close>, \<^verbatim>\<open>'warning'\<close> and \<^verbatim>\<open>'info'\<close> only.
\<close>

definition toUpperCase :: "jsstring \<Rightarrow> jsstring" where
  "toUpperCase s = map (\<lambda>c. if 0x61 \<le> c \<and> c \<le> 0x7A then c - 0x20 else c) s"

subsection \<open>Numbers and primitive values\<close>

text \<open>
  A Number is NaN, an infinity or a finite value; finite values are kept exact (every
  double is a rational, and \<^verbatim>\<open>Math.min\<close> and \<^verbatim>\<open>Math.max\<close> return one of their
  arguments, so no rounding happens in this program).  The two zeros are one value.
\<close>

datatype jsnum = NaN | NegInf | Fin rat | PosInf

datatype prim = Undefined | Null | Bool bool | Num jsnum | Str jsstring

text \<open>
  What \<^verbatim>\<open>response.json()\<close> decodes to: a primitive value or an object whose properties
  hold primitive values (the bodies of this API are flat: \<^verbatim>\<open>{reply}\<close>, \<^verbatim>\<open>{message}\<close>,
  \<^verbatim>\<open>{itse, pozo, mant, inc}\<close>).  Nested objects and arrays are outside the model.
\<close>

datatype json = Val prim | Obj "(jsstring \<times> prim) list"

record js_error =
  error_name :: jsstring
  error_message :: jsstring

text \<open>
  The parts of the language runtime that the program calls and that are not its own
  code: the conversion of a Number to a string (template literals, \<^verbatim>\<open>new Error(x)\<close>), of
  a string to a Number (the arguments of \<^verbatim>\<open>Math.min\<close>), and the message of the TypeError
  raised by a property read on \<^verbatim>\<open>null\<close> or \<^verbatim>\<open>undefined\<close>.
\<close>

record engine =
  NumberToString :: "jsnum \<Rightarrow> jsstring"
  StringToNumber :: "jsstring \<Rightarrow> jsnum"
  nullReadMessage :: "prim \<Rightarrow> jsstring \<Rightarrow> jsstring"

fun ToBoolean :: "prim \<Rightarrow> bool" where
  "ToBoolean Undefined = False"
| "ToBoolean Null = False"
| "ToBoolean (Bool b) = b"
| "ToBoolean (Num n) = (n \<noteq> NaN \<and> n \<noteq> Fin 0)"
| "ToBoolean (Str s) = (s \<noteq> [])"

fun ToString :: "engine \<Rightarrow> prim \<Rightarrow> jsstring" where
  "ToString eng Undefined = js ''undefined''"
| "ToString eng Null = js ''null''"
| "ToString eng (Bool b) = (if b then js ''true'' else js ''false'')"
| "ToString eng (Num n) = NumberToString eng n"
| "ToString eng (Str s) = s"

fun ToNumber :: "engine \<Rightarrow> prim \<Rightarrow> jsnum" where
  "ToNumber eng Undefined = NaN"
| "ToNumber eng Null = Fin 0"
| "ToNumber eng (Bool b) = (if b then Fin 1 else Fin 0)"
| "ToNumber eng (Num n) = n"
| "ToNumber eng (Str s) = StringToNumber eng s"

text \<open>\<^verbatim>\<open>a || b\<close>\<close>

definition or_else :: "prim \<Rightarrow> prim \<Rightarrow> prim" where
  "or_else a b = (if ToBoolean a then a else b)"

definition TypeError :: "jsstring \<Rightarrow> js_error" where
  "TypeError msg = \<lparr>error_name = js ''TypeError'', error_message = msg\<rparr>"

text \<open>\<^verbatim>\<open>new Error(x)\<close>: the message is \<^verbatim>\<open>x\<close> converted to a string.\<close>

definition new_Error :: "engine \<Rightarrow> prim \<Rightarrow> js_error" where
  "new_Error eng x = \<lparr>error_name = js ''Error'', error_message = ToString eng x\<rparr>"

text \<open>
  The property read \<^verbatim>\<open>v.p\<close> or \<^verbatim>\<open>v[p]\<close>.  Reading from \<^verbatim>\<open>null\<close> or \<^verbatim>\<open>undefined\<close>
  throws; a primitive has none of the properties this program reads (\<^verbatim>\<open>message\<close>,
  \<^verbatim>\<open>reply\<close>, the chart keys).
\<close>

fun Get :: "engine \<Rightarrow> json \<Rightarrow> jsstring \<Rightarrow> js_error + prim" where
  "Get eng (Val Undefined) p = Inl (TypeError (nullReadMessage eng Undefined p))"
| "Get eng (Val Null) p = Inl (TypeError (nullReadMessage eng Null p))"
| "Get eng (Val v) p = Inr Undefined"
| "Get eng (Obj kvs) p = Inr (case map_of kvs p of None \<Rightarrow> Undefined | Some v \<Rightarrow> v)"

subsection \<open>\<^verbatim>\<open>Math.min\<close> and \<^verbatim>\<open>Math.max\<close> on two Numbers\<close>

fun Math_min :: "jsnum \<Rightarrow> jsnum \<Rightarrow> jsnum" where
  "Math_min NaN y = NaN"
| "Math_min x NaN = NaN"
| "Math_min NegInf y = NegInf"
| "Math_min x NegInf = NegInf"
| "Math_min PosInf y = y"
| "Math_min x PosInf = x"
| "Math_min (Fin a) (Fin b) = Fin (min a b)"

fun Math_max :: "jsnum \<Rightarrow> jsnum \<Rightarrow> jsnum" where
  "Math_max NaN y = NaN"
| "Math_max x NaN = NaN"
| "Math_max PosInf y = PosInf"
| "Math_max x PosInf = PosInf"
| "Math_max NegInf y = y"
| "Math_max x NegInf = x"
| "Math_max (Fin a) (Fin b) = Fin (max a b)"

subsection \<open>Regular expressions\<close>

text \<open>
  The constructs the source's pattern is built from.  A pattern between \<^verbatim>\<open>^\<close> and
  \<^verbatim>\<open>$\<close> (no flags) has to match the whole string, so \<^verbatim>\<open>test\<close> is membership of the
  string in the pattern's language; it is decided by derivatives.
\<close>

datatype regex =
    Never
  | Empty
  | Class "16 word \<Rightarrow> bool"
  | Alt regex regex
  | Cat regex regex
  | Star regex

text \<open>\<^verbatim>\<open>r+\<close>\<close>

definition OneOrMore :: "regex \<Rightarrow> regex" where
  "OneOrMore r = Cat r (Star r)"

fun nullable :: "regex \<Rightarrow> bool" where
  "nullable Never = False"
| "nullable Empty = True"
| "nullable (Class P) = False"
| "nullable (Alt r s) = (nullable r \<or> nullable s)"
| "nullable (Cat r s) = (nullable r \<and> nullable s)"
| "nullable (Star r) = True"

fun deriv :: "16 word \<Rightarrow> regex \<Rightarrow> regex" where
  "deriv c Never = Never"
| "deriv c Empty = Never"
| "deriv c (Class P) = (if P c then Empty else Never)"
| "deriv c (Alt r s) = Alt (deriv c r) (deriv c s)"
| "deriv c (Cat r s) =
     (if nullable r then Alt (Cat (deriv c r) s) (deriv c s) else Cat (deriv c r) s)"
| "deriv c (Star r) = Cat (deriv c r) (Star r)"

fun regex_test :: "regex \<Rightarrow> jsstring \<Rightarrow> bool" where
  "regex_test r [] = nullable r"
| "regex_test r (c # cs) = regex_test (deriv c r) cs"

text \<open>The words a pattern matches, for reference.\<close>

inductive_set star :: "jsstring set \<Rightarrow> jsstring set" for A :: "jsstring set" where
  star_nil: "[] \<in> star A"
| star_app: "u \<in> A \<Longrightarrow> v \<in> star A \<Longrightarrow> u @ v \<in> star A"

fun lang :: "regex \<Rightarrow> jsstring set" where
  "lang Never = {}"
| "lang Empty = {[]}"
| "lang (Class P) = {[c] | c. P c}"
| "lang (Alt r s) = lang r \<union> lang s"
| "lang (Cat r s) = {u @ v | u v. u \<in> lang r \<and> v \<in> lang s}"
| "lang (Star r) = star (lang r)"

text \<open>\<^verbatim>\<open>[^\s@]\<close>\<close>

definition not_space_or_at :: "16 word \<Rightarrow> bool" where
  "not_space_or_at c \<longleftrightarrow> \<not> is_space c \<and> c \<noteq> 0x40"

text \<open>\<^verbatim>\<open>/^[^\s@]+@[^\s@]+\.[^\s@]+$/\<close>\<close>

definition emailRegex :: regex where
  "emailRegex =
     Cat (OneOrMore (Class not_space_or_at))
      (Cat (Class (\<lambda>c. c = 0x40))
        (Cat (OneOrMore (Class not_space_or_at))
          (Cat (Class (\<lambda>c. c = 0x2E))
            (OneOrMore (Class not_space_or_at)))))"

section \<open>The page and the network\<close>

text \<open>
  The elements the controller looks up.  An element that the source guards against
  (\<^verbatim>\<open>if (!statusElement) return\<close>, \<^verbatim>\<open>if (contactForm)\<close>, \<^verbatim>\<open>if (tip)\<close>) or reads
  without a guard (\<^verbatim>\<open>submitButton.textContent\<close>, \<^verbatim>\<open>input.value\<close>) is optional here.
\<close>

record status_el =
  status_textContent :: jsstring
  status_className :: jsstring

text \<open>A \<^verbatim>\<open>.chart .bar\<close> element: its \<^verbatim>\<open>style.height\<close> and the text of its first \<^verbatim>\<open>.tip\<close>.\<close>

record bar =
  style_height :: jsstring
  tip_textContent :: "jsstring option"

text \<open>
  A child of \<^verbatim>\<open>.chat-messages\<close>: a message element, given by its class name and the two
  holes of the template assigned to its \<^verbatim>\<open>innerHTML\<close> (the markup of
  \<^verbatim>\<open>.message-text\<close> and of \<^verbatim>\<open>.message-time\<close>), or the element \<^verbatim>\<open>#typing-indicator\<close>.
\<close>

datatype node =
    Message (message_className: jsstring) (message_text: jsstring) (message_time: jsstring)
  | TypingIndicator

datatype console_entry =
    console_log jsstring
  | console_error jsstring js_error

text \<open>
  A call of \<^verbatim>\<open>fetch(url, options)\<close>.  The body is the value handed to
  \<^verbatim>\<open>JSON.stringify\<close>.
\<close>

record request =
  url :: jsstring
  req_method :: "jsstring option"
  req_headers :: "(jsstring \<times> jsstring) list"
  req_body :: "json option"

text \<open>
  \<^verbatim>\<open>contact_form\<close> and \<^verbatim>\<open>chat_form\<close> count the submit listeners bound to
  \<^verbatim>\<open>#contact-form\<close> and \<^verbatim>\<open>#chat-form\<close>; \<^verbatim>\<open>now\<close> is what \<^verbatim>\<open>getCurrentTime()\<close>
  returns at this moment; \<^verbatim>\<open>console\<close> and \<^verbatim>\<open>network\<close> record the calls of
  \<^verbatim>\<open>console.log\<close>, \<^verbatim>\<open>console.error\<close> and \<^verbatim>\<open>fetch\<close> in order.
\<close>

record world =
  connection_status :: "status_el option"
  bars :: "bar list"
  contact_form :: "nat option"
  chat_form :: "nat option"
  chat_messages :: "node list option"
  now :: jsstring
  console :: "console_entry list"
  network :: "request list"

definition log_line :: "jsstring \<Rightarrow> world \<Rightarrow> world" where
  "log_line line w = w\<lparr>console := console w @ [console_log line]\<rparr>"

definition log_error :: "jsstring \<Rightarrow> js_error \<Rightarrow> world \<Rightarrow> world" where
  "log_error label e w = w\<lparr>console := console w @ [console_error label e]\<rparr>"

text \<open>
  What \<^verbatim>\<open>fetch\<close> settles with: a rejection (no answer from the network) or a response
  with its status and what \<^verbatim>\<open>response.json()\<close> would settle with.  \<^verbatim>\<open>response.ok\<close> is
  true for the statuses 200 to 299.
\<close>

record response =
  status :: nat
  json_body :: "js_error + json"

datatype fetch_result = Rejected js_error | Fulfilled response

definition ok :: "response \<Rightarrow> bool" where
  "ok r \<longleftrightarrow> 200 \<le> status r \<and> status r \<le> 299"

text \<open>
  An \<^verbatim>\<open>async\<close> handler runs to its \<^verbatim>\<open>await fetch(...)\<close> and is resumed when the request
  settles.  \<^verbatim>\<open>Settled s r\<close>: the handler finished without a request, in state \<^verbatim>\<open>s\<close>,
  its promise rejected with \<^verbatim>\<open>r\<close> if \<^verbatim>\<open>r\<close> is an error.  \<^verbatim>\<open>Awaiting k s\<close>: the
  request is under way, the page is in state \<^verbatim>\<open>s\<close>, and \<^verbatim>\<open>k\<close> holds the local
  variables the rest of the handler needs.
\<close>

datatype ('s, 'k) progress = Settled 's "js_error option" | Awaiting 'k 's

section \<open>\<^verbatim>\<open>config.js\<close>\<close>

record api_config =
  BASE_URL :: jsstring
  HEALTH :: jsstring
  METRICS :: jsstring
  CHAT :: jsstring
  LEADS :: jsstring

definition API_CONFIG :: "jsstring \<Rightarrow> api_config" where
  "API_CONFIG hostname =
     \<lparr>BASE_URL = (if hostname = js ''localhost'' \<or> hostname = js ''127.0.0.1''
                  then js ''http://127.0.0.1:8000'' else []),
      HEALTH = js ''/healthz'',
      METRICS = js ''/api/metrics'',
      CHAT = js ''/api/chat'',
      LEADS = js ''/api/leads''\<rparr>"

section \<open>\<^verbatim>\<open>api.js\<close>: class \<^verbatim>\<open>ApiService\<close>\<close>

record fetch_options =
  options_method :: "jsstring option"
  options_body :: "json option"
  options_headers :: "(jsstring \<times> jsstring) list option"

definition no_options :: fetch_options where
  "no_options = \<lparr>options_method = None, options_body = None, options_headers = None\<rparr>"

definition post :: "json \<Rightarrow> fetch_options" where
  "post v =
     \<lparr>options_method = Some (js ''POST''), options_body = Some v, options_headers = None\<rparr>"

text \<open>The text \<^verbatim>\<open>'Error en la peticion'\<close> of the source, its accented o being U+00F3.\<close>

definition request_failed_text :: jsstring where
  "request_failed_text = js ''Error en la petici'' @ [0xF3] @ js ''n''"

text \<open>
  \<^verbatim>\<open>fetchApi\<close> up to its \<^verbatim>\<open>await fetch(url, defaultOptions)\<close>.  In
  \<^verbatim>\<open>defaultOptions\<close> the spread \<^verbatim>\<open>...options\<close> comes last, so a \<^verbatim>\<open>headers\<close> property
  of \<^verbatim>\<open>options\<close> replaces the merged headers.
\<close>

definition fetchApi_call :: "api_config \<Rightarrow> jsstring \<Rightarrow> fetch_options \<Rightarrow> world \<Rightarrow> world" where
  "fetchApi_call api endpoint options w =
     w\<lparr>network := network w @
        [\<lparr>url = BASE_URL api @ endpoint,
          req_method = options_method options,
          req_headers = (case options_headers options of
                           None \<Rightarrow> [(js ''Content-Type'', js ''application/json'')]
                         | Some h \<Rightarrow> h),
          req_body = options_body options\<rparr>]\<rparr>"

text \<open>The body of the \<^verbatim>\<open>try\<close> of \<^verbatim>\<open>fetchApi\<close>, from the settled \<^verbatim>\<open>fetch\<close> on.\<close>

definition fetchApi_try :: "engine \<Rightarrow> fetch_result \<Rightarrow> js_error + json" where
  "fetchApi_try eng fr =
     (case fr of
        Rejected e \<Rightarrow> Inl e
      | Fulfilled response \<Rightarrow>
          if \<not> ok response then
            (let error = (case json_body response of Inl _ \<Rightarrow> Obj [] | Inr v \<Rightarrow> v)
             in case Get eng error (js ''message'') of
                  Inl e \<Rightarrow> Inl e
                | Inr m \<Rightarrow> Inl (new_Error eng (or_else m (Str request_failed_text))))
          else if status response = 204 then Inr (Val Null)
          else json_body response)"

text \<open>The \<^verbatim>\<open>catch\<close> of \<^verbatim>\<open>fetchApi\<close> logs the error and throws it again.\<close>

definition fetchApi_settle :: "engine \<Rightarrow> fetch_result \<Rightarrow> world \<Rightarrow> world \<times> (js_error + json)" where
  "fetchApi_settle eng fr w =
     (case fetchApi_try eng fr of
        Inl e \<Rightarrow> (log_error (request_failed_text @ js '':'') e w, Inl e)
      | Inr v \<Rightarrow> (w, Inr v))"

definition fetchApi ::
  "engine \<Rightarrow> api_config \<Rightarrow> jsstring \<Rightarrow> fetch_options \<Rightarrow> fetch_result \<Rightarrow> world
     \<Rightarrow> world \<times> (js_error + json)" where
  "fetchApi eng api endpoint options fr w =
     fetchApi_settle eng fr (fetchApi_call api endpoint options w)"

definition checkHealth ::
  "engine \<Rightarrow> api_config \<Rightarrow> fetch_result \<Rightarrow> world \<Rightarrow> world \<times> (js_error + json)" where
  "checkHealth eng api = fetchApi eng api (HEALTH api) no_options"

definition getMetrics ::
  "engine \<Rightarrow> api_config \<Rightarrow> fetch_result \<Rightarrow> world \<Rightarrow> world \<times> (js_error + json)" where
  "getMetrics eng api = fetchApi eng api (METRICS api) no_options"

text \<open>\<^verbatim>\<open>sendChatMessage(message, useAi = true)\<close> and \<^verbatim>\<open>sendLead(lead)\<close>, to the \<^verbatim>\<open>await\<close>.\<close>

definition sendChatMessage_call :: "api_config \<Rightarrow> jsstring \<Rightarrow> bool \<Rightarrow> world \<Rightarrow> world" where
  "sendChatMessage_call api message useAi =
     fetchApi_call api (CHAT api)
       (post (Obj [(js ''message'', Str message), (js ''use_ai'', Bool useAi)]))"

definition sendLead_call :: "api_config \<Rightarrow> json \<Rightarrow> world \<Rightarrow> world" where
  "sendLead_call api lead = fetchApi_call api (LEADS api) (post lead)"

section \<open>\<^verbatim>\<open>main.js\<close>: class \<^verbatim>\<open>App\<close>\<close>

subsection \<open>Notifications, connection status\<close>

text \<open>\<^verbatim>\<open>showNotification(message, type)\<close>: \<^verbatim>\<open>console.log(`[${type.toUpperCase()}] ${message}`)\<close>\<close>

definition showNotification :: "jsstring \<Rightarrow> jsstring \<Rightarrow> world \<Rightarrow> world" where
  "showNotification message type w =
     log_line (js ''['' @ toUpperCase type @ js ''] '' @ message) w"

definition updateConnectionStatus :: "bool \<Rightarrow> world \<Rightarrow> world" where
  "updateConnectionStatus isConnected w =
     (case connection_status w of
        None \<Rightarrow> w
      | Some statusElement \<Rightarrow>
          if isConnected then
            w\<lparr>connection_status :=
                Some \<lparr>status_textContent = js ''Conectado al servidor'',
                      status_className = js ''status-connected''\<rparr>\<rparr>
          else
            w\<lparr>connection_status :=
                Some \<lparr>status_textContent = js ''Sin conexi'' @ [0xF3] @ js ''n al servidor'',
                      status_className = js ''status-disconnected''\<rparr>\<rparr>)"

text \<open>
  \<^verbatim>\<open>checkBackendConnection\<close>: the second component is the error the function throws,
  if any.
\<close>

definition checkBackendConnection ::
  "engine \<Rightarrow> api_config \<Rightarrow> fetch_result \<Rightarrow> world \<Rightarrow> world \<times> js_error option" where
  "checkBackendConnection eng api fr w =
     (case checkHealth eng api fr w of
        (w1, Inr _) \<Rightarrow> (updateConnectionStatus True w1, None)
      | (w1, Inl error) \<Rightarrow>
          (updateConnectionStatus False
             (log_error (js ''No se pudo conectar al backend:'') error w1),
           Some error))"

subsection \<open>Metrics\<close>

definition keys :: "jsstring list" where
  "keys = [js ''itse'', js ''pozo'', js ''mant'', js ''inc'']"

text \<open>
  \<^verbatim>\<open>keys[index]\<close> as a property name: past the end of the array it is \<^verbatim>\<open>undefined\<close>,
  which names the property \<^verbatim>\<open>"undefined"\<close>.
\<close>

definition key_at :: "nat \<Rightarrow> jsstring" where
  "key_at index = (if index < length keys then keys ! index else js ''undefined'')"

text \<open>The template literal \<^verbatim>\<open>`${v}%`\<close>.\<close>

definition percent :: "engine \<Rightarrow> prim \<Rightarrow> jsstring" where
  "percent eng v = ToString eng v @ js ''%''"

text \<open>
  The assignment \<^verbatim>\<open>bar.style.height = `${n}%`\<close>.  The style keeps its former value when
  the text is no percentage, which for a Number \<^verbatim>\<open>n\<close> at least 5 and at most 100, or
  NaN, is the case of NaN.
\<close>

definition set_style_height :: "engine \<Rightarrow> jsnum \<Rightarrow> bar \<Rightarrow> bar" where
  "set_style_height eng n b =
     (if n = NaN then b else b\<lparr>style_height := percent eng (Num n)\<rparr>)"

text \<open>The callback of \<^verbatim>\<open>bars.forEach\<close> in \<^verbatim>\<open>updateMetricsUI\<close>.\<close>

definition update_bar :: "engine \<Rightarrow> json \<Rightarrow> nat \<Rightarrow> bar \<Rightarrow> js_error + bar" where
  "update_bar eng metrics index b =
     (let key = key_at index
      in case Get eng metrics key of
           Inl e \<Rightarrow> Inl e
         | Inr m \<Rightarrow>
            (let value = or_else m (Num (Fin 50));
                 b1 = set_style_height eng
                        (Math_max (Fin 5) (Math_min (Fin 100) (ToNumber eng value))) b
             in Inr (case tip_textContent b1 of
                       None \<Rightarrow> b1
                     | Some tip \<Rightarrow> b1\<lparr>tip_textContent := Some (percent eng value)\<rparr>)))"

text \<open>
  \<^verbatim>\<open>forEach\<close> from position \<^verbatim>\<open>index\<close> on: an error thrown by the callback ends the
  loop, the elements before it stay updated.
\<close>

fun forEach :: "(nat \<Rightarrow> bar \<Rightarrow> js_error + bar) \<Rightarrow> nat \<Rightarrow> bar list \<Rightarrow> bar list \<times> js_error option" where
  "forEach f index [] = ([], None)"
| "forEach f index (b # bs) =
     (case f index b of
        Inl e \<Rightarrow> (b # bs, Some e)
      | Inr b1 \<Rightarrow> (case forEach f (Suc index) bs of (bs1, r) \<Rightarrow> (b1 # bs1, r)))"

definition updateMetricsUI :: "engine \<Rightarrow> json \<Rightarrow> world \<Rightarrow> world \<times> js_error option" where
  "updateMetricsUI eng metrics w =
     (case forEach (update_bar eng metrics) 0 (bars w) of
        (bs, r) \<Rightarrow> (w\<lparr>bars := bs\<rparr>, r))"

definition fallback_metrics :: json where
  "fallback_metrics =
     Obj [(js ''itse'', Num (Fin 80)), (js ''pozo'', Num (Fin 65)),
          (js ''mant'', Num (Fin 90)), (js ''inc'', Num (Fin 50))]"

text \<open>The \<^verbatim>\<open>catch\<close> of \<^verbatim>\<open>loadMetrics\<close>.\<close>

definition loadMetrics_catch :: "engine \<Rightarrow> js_error \<Rightarrow> world \<Rightarrow> world \<times> js_error option" where
  "loadMetrics_catch eng error w =
     updateMetricsUI eng fallback_metrics
       (log_error (js ''Error al cargar m'' @ [0xE9] @ js ''tricas:'') error w)"

definition loadMetrics ::
  "engine \<Rightarrow> api_config \<Rightarrow> fetch_result \<Rightarrow> world \<Rightarrow> world \<times> js_error option" where
  "loadMetrics eng api fr w =
     (case getMetrics eng api fr w of
        (w1, Inr metrics) \<Rightarrow>
          (case updateMetricsUI eng metrics w1 of
             (w2, None) \<Rightarrow> (w2, None)
           | (w2, Some error) \<Rightarrow> loadMetrics_catch eng error w2)
      | (w1, Inl error) \<Rightarrow> loadMetrics_catch eng error w1)"

subsection \<open>Start of the application\<close>

definition initializeEventListeners :: "world \<Rightarrow> world" where
  "initializeEventListeners w =
     (let w1 = (case contact_form w of
                  None \<Rightarrow> w
                | Some listeners \<Rightarrow> w\<lparr>contact_form := Some (Suc listeners)\<rparr>)
      in case chat_form w1 of
           None \<Rightarrow> w1
         | Some listeners \<Rightarrow> w1\<lparr>chat_form := Some (Suc listeners)\<rparr>)"

text \<open>The \<^verbatim>\<open>catch\<close> of \<^verbatim>\<open>initializeApp\<close>.\<close>

definition initializeApp_catch :: "js_error \<Rightarrow> world \<Rightarrow> world" where
  "initializeApp_catch error w =
     showNotification (js ''Error al conectar con el servidor'') (js ''error'')
       (log_error (js ''Error al inicializar la aplicaci'' @ [0xF3] @ js ''n:'') error w)"

text \<open>
  \<^verbatim>\<open>initializeApp\<close>, called once by the constructor of \<^verbatim>\<open>App\<close>.  \<^verbatim>\<open>health\<close> and
  \<^verbatim>\<open>metrics\<close> are what the two requests settle with (the second is read only if the
  request is made).
\<close>

definition initializeApp ::
  "engine \<Rightarrow> api_config \<Rightarrow> fetch_result \<Rightarrow> fetch_result \<Rightarrow> world \<Rightarrow> world" where
  "initializeApp eng api health metrics w =
     (case checkBackendConnection eng api health w of
        (w1, Some error) \<Rightarrow> initializeApp_catch error w1
      | (w1, None) \<Rightarrow>
          (case loadMetrics eng api metrics w1 of
             (w2, Some error) \<Rightarrow> initializeApp_catch error w2
           | (w2, None) \<Rightarrow>
               log_line (js ''Aplicaci'' @ [0xF3] @ js ''n inicializada correctamente'')
                 (initializeEventListeners w2)))"

subsection \<open>Chat\<close>

text \<open>
  \<^verbatim>\<open>escapeHtml\<close> assigns the text to \<^verbatim>\<open>textContent\<close> of a fresh \<^verbatim>\<open>div\<close> and reads its
  \<^verbatim>\<open>innerHTML\<close>.  The assignment turns \<^verbatim>\<open>null\<close> and \<^verbatim>\<open>undefined\<close> into the empty
  string and any other value into its string; the serialisation of a text node
  replaces \<^verbatim>\<open>&\<close>, \<^verbatim>\<open><\<close>, \<^verbatim>\<open>>\<close> and the no-break space.
\<close>

definition escape_unit :: "16 word \<Rightarrow> jsstring" where
  "escape_unit c =
     (if c = 0x26 then js ''&amp;''
      else if c = 0x3C then js ''&lt;''
      else if c = 0x3E then js ''&gt;''
      else if c = 0xA0 then js ''&nbsp;''
      else [c])"

definition escapeHtml :: "engine \<Rightarrow> prim \<Rightarrow> jsstring" where
  "escapeHtml eng text =
     (let textContent = (case text of Undefined \<Rightarrow> [] | Null \<Rightarrow> [] | _ \<Rightarrow> ToString eng text)
      in concat (map escape_unit textContent))"

definition appendMessage :: "engine \<Rightarrow> prim \<Rightarrow> jsstring \<Rightarrow> world \<Rightarrow> world" where
  "appendMessage eng text sender w =
     (case chat_messages w of
        None \<Rightarrow> w
      | Some children \<Rightarrow>
          w\<lparr>chat_messages :=
              Some (children @ [Message (js ''chat-message '' @ sender) (escapeHtml eng text) (now w)])\<rparr>)"

definition showTypingIndicator :: "world \<Rightarrow> world" where
  "showTypingIndicator w =
     (case chat_messages w of
        None \<Rightarrow> w
      | Some children \<Rightarrow> w\<lparr>chat_messages := Some (children @ [TypingIndicator])\<rparr>)"

text \<open>
  \<^verbatim>\<open>document.getElementById('typing-indicator')\<close> finds the first such element; the
  controller puts them into \<^verbatim>\<open>.chat-messages\<close> only.
\<close>

definition hideTypingIndicator :: "world \<Rightarrow> world" where
  "hideTypingIndicator w =
     (case chat_messages w of
        None \<Rightarrow> w
      | Some children \<Rightarrow> w\<lparr>chat_messages := Some (remove1 TypingIndicator children)\<rparr>)"

record 't event =
  target :: 't
  defaultPrevented :: bool

text \<open>The chat form: the value of its \<^verbatim>\<open>input[type="text"]\<close>, if it has one.\<close>

record chat_form_el =
  input_value :: "jsstring option"

text \<open>
  The text appended by the \<^verbatim>\<open>catch\<close> of \<^verbatim>\<open>handleChatSubmit\<close>; its accented letters are
  U+00E9 and U+00E1.
\<close>

definition chat_fallback_text :: jsstring where
  "chat_fallback_text =
     js ''Lo siento, ha ocurrido un error al procesar tu mensaje. Por favor, int''
     @ [0xE9] @ js ''ntalo de nuevo m'' @ [0xE1] @ js ''s tarde.''"

text \<open>\<^verbatim>\<open>handleChatSubmit\<close> up to \<^verbatim>\<open>await this.api.sendChatMessage(message)\<close>.\<close>

definition handleChatSubmit_begin ::
  "engine \<Rightarrow> api_config \<Rightarrow> chat_form_el event \<Rightarrow> world
     \<Rightarrow> (chat_form_el event \<times> world, unit) progress" where
  "handleChatSubmit_begin eng api e w =
     (let e1 = e\<lparr>defaultPrevented := True\<rparr>
      in case input_value (target e1) of
           None \<Rightarrow> Settled (e1, w) (Some (TypeError (nullReadMessage eng Null (js ''value''))))
         | Some v \<Rightarrow>
            (let message = trim v
             in if message = [] then Settled (e1, w) None
                else
                  (let w1 = appendMessage eng (Str message) (js ''user'') w;
                       e2 = e1\<lparr>target := (target e1)\<lparr>input_value := Some []\<rparr>\<rparr>;
                       w2 = showTypingIndicator w1
                   in Awaiting () (e2, sendChatMessage_call api message True w2))))"

text \<open>The \<^verbatim>\<open>catch\<close> of \<^verbatim>\<open>handleChatSubmit\<close>.\<close>

definition handleChatSubmit_catch :: "engine \<Rightarrow> js_error \<Rightarrow> world \<Rightarrow> world" where
  "handleChatSubmit_catch eng error w =
     appendMessage eng (Str chat_fallback_text) (js ''bot'')
       (hideTypingIndicator (log_error (js ''Error en el chat:'') error w))"

text \<open>
  The rest of \<^verbatim>\<open>handleChatSubmit\<close>, once the request has settled with \<^verbatim>\<open>fr\<close>.  The
  indicator is hidden before \<^verbatim>\<open>response.reply\<close> is read.
\<close>

definition handleChatSubmit_resume ::
  "engine \<Rightarrow> fetch_result \<Rightarrow> chat_form_el event \<times> world \<Rightarrow> chat_form_el event \<times> world" where
  "handleChatSubmit_resume eng fr s =
     (case s of (e, w) \<Rightarrow>
        (case fetchApi_settle eng fr w of
           (w1, Inr response) \<Rightarrow>
             (let w2 = hideTypingIndicator w1
              in case Get eng response (js ''reply'') of
                   Inl error \<Rightarrow> (e, handleChatSubmit_catch eng error w2)
                 | Inr reply \<Rightarrow> (e, appendMessage eng reply (js ''bot'') w2))
         | (w1, Inl error) \<Rightarrow> (e, handleChatSubmit_catch eng error w1)))"

definition handleChatSubmit ::
  "engine \<Rightarrow> api_config \<Rightarrow> fetch_result \<Rightarrow> chat_form_el event \<Rightarrow> world
     \<Rightarrow> (chat_form_el event \<times> world) \<times> js_error option" where
  "handleChatSubmit eng api fr e w =
     (case handleChatSubmit_begin eng api e w of
        Settled s r \<Rightarrow> (s, r)
      | Awaiting _ s \<Rightarrow> (handleChatSubmit_resume eng fr s, None))"

subsection \<open>Contact form\<close>

record field =
  field_value :: jsstring
  field_defaultValue :: jsstring

record button =
  disabled :: bool
  button_textContent :: jsstring

text \<open>
  The contact form: its named text controls and its \<^verbatim>\<open>button[type="submit"]\<close>, if it
  has one.
\<close>

record form_el =
  controls :: "(jsstring \<times> field) list"
  submit_button :: "button option"

text \<open>\<^verbatim>\<open>formData.get(name)?.trim()\<close>: \<^verbatim>\<open>undefined\<close> when the form has no such control.\<close>

definition get_trimmed :: "form_el \<Rightarrow> jsstring \<Rightarrow> prim" where
  "get_trimmed form n =
     (case map_of (controls form) n of
        None \<Rightarrow> Undefined
      | Some f \<Rightarrow> Str (trim (field_value f)))"

text \<open>\<^verbatim>\<open>form.reset()\<close> gives every control its default value.\<close>

definition reset :: "form_el \<Rightarrow> form_el" where
  "reset form =
     form\<lparr>controls := map (\<lambda>(n, f). (n, f\<lparr>field_value := field_defaultValue f\<rparr>)) (controls form)\<rparr>"

text \<open>
  The messages of the handler; accented letters (U+00F3, U+00E1, U+00E9) and the
  inverted exclamation mark (U+00A1) are given by their code units.
\<close>

definition required_text :: jsstring where
  "required_text = js ''Por favor complete todos los campos obligatorios''"

definition invalid_email_text :: jsstring where
  "invalid_email_text =
     js ''Por favor ingrese un correo electr'' @ [0xF3] @ js ''nico v'' @ [0xE1] @ js ''lido''"

definition sent_text :: jsstring where
  "sent_text = [0xA1] @ js ''Mensaje enviado con '' @ [0xE9] @ js ''xito!''"

definition send_failed_text :: jsstring where
  "send_failed_text = js ''Error al enviar el mensaje. Por favor, intente nuevamente.''"

text \<open>The \<^verbatim>\<open>catch\<close> and the \<^verbatim>\<open>finally\<close> of \<^verbatim>\<open>handleContactSubmit\<close>.\<close>

definition handleContactSubmit_catch ::
  "js_error \<Rightarrow> form_el event \<times> world \<Rightarrow> form_el event \<times> world" where
  "handleContactSubmit_catch error s =
     (case s of (e, w) \<Rightarrow>
        (e, showNotification
              (if error_message error \<noteq> [] then error_message error else send_failed_text)
              (js ''error'')
              (log_error (js ''Error al enviar el formulario:'') error w)))"

definition handleContactSubmit_finally ::
  "jsstring \<Rightarrow> form_el event \<times> world \<Rightarrow> form_el event \<times> world" where
  "handleContactSubmit_finally originalButtonText s =
     (case s of (e, w) \<Rightarrow>
        (e\<lparr>target := (target e)\<lparr>submit_button :=
              map_option (\<lambda>submitButton.
                  submitButton\<lparr>disabled := False, button_textContent := originalButtonText\<rparr>)
                (submit_button (target e))\<rparr>\<rparr>,
         w))"

text \<open>
  The statements under \<^verbatim>\<open>// Validar datos del formulario\<close> and
  \<^verbatim>\<open>// Validar formato de email\<close>: the error they throw, if any.
\<close>

definition validate :: "engine \<Rightarrow> prim \<Rightarrow> prim \<Rightarrow> prim \<Rightarrow> js_error option" where
  "validate eng name email phone =
     (if \<not> ToBoolean name \<or> \<not> ToBoolean email \<or> \<not> ToBoolean phone then
        Some (new_Error eng (Str required_text))
      else if \<not> regex_test emailRegex (ToString eng email) then
        Some (new_Error eng (Str invalid_email_text))
      else None)"

text \<open>The object handed to \<^verbatim>\<open>sendLead\<close>.\<close>

definition lead :: "prim \<Rightarrow> prim \<Rightarrow> prim \<Rightarrow> prim \<Rightarrow> json" where
  "lead name email phone message =
     Obj [(js ''name'', name),
          (js ''email'', email),
          (js ''phone'', phone),
          (js ''message'', or_else message (Str (js ''Sin mensaje adicional''))),
          (js ''source'', Str (js ''formulario-web''))]"

text \<open>
  \<^verbatim>\<open>handleContactSubmit\<close> up to \<^verbatim>\<open>await this.api.sendLead({...})\<close>.  The text of the
  button is read before the \<^verbatim>\<open>try\<close>; the suspended handler keeps it.
\<close>

definition handleContactSubmit_begin ::
  "engine \<Rightarrow> api_config \<Rightarrow> form_el event \<Rightarrow> world
     \<Rightarrow> (form_el event \<times> world, jsstring) progress" where
  "handleContactSubmit_begin eng api e w =
     (let e1 = e\<lparr>defaultPrevented := True\<rparr>;
          form = target e1
      in case submit_button form of
           None \<Rightarrow>
             Settled (e1, w) (Some (TypeError (nullReadMessage eng Null (js ''textContent''))))
         | Some submitButton \<Rightarrow>
            (let originalButtonText = button_textContent submitButton;
                 e2 = e1\<lparr>target := form\<lparr>submit_button :=
                        Some (submitButton\<lparr>disabled := True,
                                button_textContent := js ''Enviando...''\<rparr>)\<rparr>\<rparr>;
                 name = get_trimmed form (js ''name'');
                 email = get_trimmed form (js ''email'');
                 phone = get_trimmed form (js ''phone'');
                 message = get_trimmed form (js ''message'')
             in case validate eng name email phone of
                  Some error \<Rightarrow>
                    Settled
                      (handleContactSubmit_finally originalButtonText
                         (handleContactSubmit_catch error (e2, w)))
                      None
                | None \<Rightarrow>
                    Awaiting originalButtonText
                      (e2, sendLead_call api (lead name email phone message) w)))"

text \<open>The rest of \<^verbatim>\<open>handleContactSubmit\<close>, once the request has settled with \<^verbatim>\<open>fr\<close>.\<close>

definition handleContactSubmit_resume ::
  "engine \<Rightarrow> jsstring \<Rightarrow> fetch_result \<Rightarrow> form_el event \<times> world \<Rightarrow> form_el event \<times> world" where
  "handleContactSubmit_resume eng originalButtonText fr s =
     (case s of (e, w) \<Rightarrow>
        (case fetchApi_settle eng fr w of
           (w1, Inr _) \<Rightarrow>
             handleContactSubmit_finally originalButtonText
               (e\<lparr>target := reset (target e)\<rparr>, showNotification sent_text (js ''success'') w1)
         | (w1, Inl error) \<Rightarrow>
             handleContactSubmit_finally originalButtonText
               (handleContactSubmit_catch error (e, w1))))"

definition handleContactSubmit ::
  "engine \<Rightarrow> api_config \<Rightarrow> fetch_result \<Rightarrow> form_el event \<Rightarrow> world
     \<Rightarrow> (form_el event \<times> world) \<times> js_error option" where
  "handleContactSubmit eng api fr e w =
     (case handleContactSubmit_begin eng api e w of
        Settled s r \<Rightarrow> (s, r)
      | Awaiting originalButtonText s \<Rightarrow>
          (handleContactSubmit_resume eng originalButtonText fr s, None))"

section \<open>The specification's clamp\<close>

text \<open>
  \<^verbatim>\<open>clamp(v, lo, hi)\<close> as the specification uses it for the chart: \<^verbatim>\<open>v\<close> brought into
  the range from \<^verbatim>\<open>lo\<close> to \<^verbatim>\<open>hi\<close>.
\<close>

definition clamp :: "rat \<Rightarrow> rat \<Rightarrow> rat \<Rightarrow> rat" where
  "clamp v lo hi = (if v < lo then lo else if hi < v then hi else v)"

section \<open>Concrete inputs\<close>

text \<open>
  An engine for the concrete instances.  On the integers that occur there it prints
  what \<^verbatim>\<open>Number.prototype.toString\<close> prints (the integer part in decimal), it reads
  strings of decimal digits, and its TypeError message has the wording of V8.
\<close>

fun decimal :: "nat \<Rightarrow> jsstring" where
  "decimal n = (if n < 10 then [of_nat (48 + n)] else decimal (n div 10) @ [of_nat (48 + n mod 10)])"

declare decimal.simps [simp del]

definition is_digit :: "16 word \<Rightarrow> bool" where
  "is_digit c \<longleftrightarrow> 0x30 \<le> c \<and> c \<le> 0x39"

definition sample_engine :: engine where
  "sample_engine =
     \<lparr>NumberToString = (\<lambda>n. case n of
          NaN \<Rightarrow> js ''NaN''
        | NegInf \<Rightarrow> js ''-Infinity''
        | PosInf \<Rightarrow> js ''Infinity''
        | Fin q \<Rightarrow> (if q < 0 then js ''-'' else []) @ decimal (nat \<lfloor>\<bar>q\<bar>\<rfloor>)),
      StringToNumber = (\<lambda>s.
          if trim s = [] then Fin 0
          else if list_all is_digit (trim s)
          then Fin (of_nat (foldl (\<lambda>a c. 10 * a + (unat c - 48)) 0 (trim s)))
          else NaN),
      nullReadMessage = (\<lambda>v p.
          js ''Cannot read properties of ''
          @ (case v of Null \<Rightarrow> js ''null'' | _ \<Rightarrow> js ''undefined'')
          @ js '' (reading '' @ [0x27] @ p @ [0x27] @ js '')'')\<rparr>"

definition sample_api :: api_config where
  "sample_api = API_CONFIG (js ''localhost'')"

definition sample_bar :: bar where
  "sample_bar = \<lparr>style_height = js ''10%'', tip_textContent = Some (js ''10%'')\<rparr>"

text \<open>A page with every element the controller looks up, five bars, an empty transcript.\<close>

definition sample_world :: world where
  "sample_world =
     \<lparr>connection_status = Some \<lparr>status_textContent = js ''...'', status_className = []\<rparr>,
      bars = [sample_bar, sample_bar, sample_bar\<lparr>tip_textContent := None\<rparr>, sample_bar, sample_bar],
      contact_form = Some 0,
      chat_form = Some 0,
      chat_messages = Some [],
      now = js ''10:30'',
      console = [],
      network = []\<rparr>"

definition network_down :: fetch_result where
  "network_down = Rejected (TypeError (js ''Failed to fetch''))"

definition no_content :: fetch_result where
  "no_content =
     Fulfilled \<lparr>status = 204,
                json_body = Inl \<lparr>error_name = js ''SyntaxError'',
                                 error_message = js ''Unexpected end of JSON input''\<rparr>\<rparr>"

definition replied :: "nat \<Rightarrow> json \<Rightarrow> fetch_result" where
  "replied code v = Fulfilled \<lparr>status = code, json_body = Inr v\<rparr>"

definition chat_event :: "jsstring \<Rightarrow> chat_form_el event" where
  "chat_event v = \<lparr>target = \<lparr>input_value = Some v\<rparr>, defaultPrevented = False\<rparr>"

definition text_field :: "jsstring \<Rightarrow> field" where
  "text_field v = \<lparr>field_value = v, field_defaultValue = []\<rparr>"

definition contact_event :: "jsstring \<Rightarrow> jsstring \<Rightarrow> jsstring \<Rightarrow> jsstring \<Rightarrow> form_el event" where
  "contact_event name email phone message =
     \<lparr>target =
        \<lparr>controls = [(js ''name'', text_field name), (js ''email'', text_field email),
                     (js ''phone'', text_field phone), (js ''message'', text_field message)],
         submit_button = Some \<lparr>disabled = False, button_textContent = js ''Enviar''\<rparr>\<rparr>,
      defaultPrevented = False\<rparr>"

section \<open>The API client\<close>

lemma fetchApi_network_failure:
  "fetchApi_try eng (Rejected e) = Inl e"
  by (simp add: fetchApi_try_def)

lemma fetchApi_no_content:
  "status r = 204 \<Longrightarrow> fetchApi_try eng (Fulfilled r) = Inr (Val Null)"
  by (simp add: fetchApi_try_def ok_def)

lemma fetchApi_http_error_undecodable:
  "\<not> ok r \<Longrightarrow> json_body r = Inl e \<Longrightarrow>
   fetchApi_try eng (Fulfilled r) = Inl (new_Error eng (Str request_failed_text))"
  by (simp add: fetchApi_try_def or_else_def)

lemma fetchApi_http_error_object:
  "\<not> ok r \<Longrightarrow> json_body r = Inr (Obj kvs) \<Longrightarrow>
   fetchApi_try eng (Fulfilled r) =
     Inl (new_Error eng (case map_of kvs (js ''message'') of
                            None \<Rightarrow> Str request_failed_text
                          | Some m \<Rightarrow> if ToBoolean m then m else Str request_failed_text))"
  by (simp add: fetchApi_try_def or_else_def split: option.splits)

lemma fetchApi_http_error_primitive:
  "\<not> ok r \<Longrightarrow> json_body r = Inr (Val v) \<Longrightarrow> v \<noteq> Null \<Longrightarrow> v \<noteq> Undefined \<Longrightarrow>
   fetchApi_try eng (Fulfilled r) = Inl (new_Error eng (Str request_failed_text))"
  by (cases v) (simp_all add: fetchApi_try_def or_else_def)

text \<open>
  C7.  On a status outside 200 to 299 \<^verbatim>\<open>fetchApi\<close> is to fail with the message of the
  error body or with the generic \<^verbatim>\<open>'Error en la peticion'\<close>.  When the body of a 500
  response is the JSON value \<^verbatim>\<open>null\<close>, the decoding succeeds, the fallback to \<^verbatim>\<open>{}\<close> is
  not taken, and reading \<^verbatim>\<open>error.message\<close> throws: the caller receives the engine's
  TypeError, not the generic error.
\<close>

theorem fetchApi_null_error_body:
  "snd (fetchApi eng api endpoint options (replied 500 (Val Null)) w) =
     Inl (TypeError (nullReadMessage eng Null (js ''message'')))
   \<and> snd (fetchApi eng api endpoint options (replied 500 (Val Null)) w) \<noteq>
     Inl (new_Error eng (Str request_failed_text))"
  by (simp add: fetchApi_def fetchApi_settle_def fetchApi_try_def replied_def ok_def
      TypeError_def new_Error_def js_def)

section \<open>Start of the application\<close>

lemma showNotification_error:
  "showNotification msg (js ''error'') w = log_line (js ''[ERROR] '' @ msg) w"
  by (simp add: showNotification_def toUpperCase_def js_def)

lemma showNotification_success:
  "showNotification msg (js ''success'') w = log_line (js ''[SUCCESS] '' @ msg) w"
  by (simp add: showNotification_def toUpperCase_def js_def)

lemma network_down_fails:
  "fetchApi_try eng network_down = Inl (TypeError (js ''Failed to fetch''))"
  by (simp add: fetchApi_try_def network_down_def)

text \<open>
  C1, as the code has it.  When the health check fails, \<^verbatim>\<open>checkBackendConnection\<close>
  throws the error again and the \<^verbatim>\<open>catch\<close> of \<^verbatim>\<open>initializeApp\<close> ends the start-up:
  the status element, if the page has one, shows the disconnected state; the error is
  logged three times and the notification \<^verbatim>\<open>[ERROR] Error al conectar con el servidor\<close>
  is issued; the health request is the only request; no submit listener is bound to
  either form, and the bars and the transcript are untouched.
\<close>

theorem failed_health_check_stops_startup:
  assumes "fetchApi_try eng health = Inl err"
  shows "connection_status (initializeApp eng api health metrics w) =
           map_option
             (\<lambda>_. \<lparr>status_textContent = js ''Sin conexi'' @ [0xF3] @ js ''n al servidor'',
                    status_className = js ''status-disconnected''\<rparr>)
             (connection_status w)
       \<and> console (initializeApp eng api health metrics w) =
           console w @
           [console_error (request_failed_text @ js '':'') err,
            console_error (js ''No se pudo conectar al backend:'') err,
            console_error (js ''Error al inicializar la aplicaci'' @ [0xF3] @ js ''n:'') err,
            console_log (js ''[ERROR] '' @ js ''Error al conectar con el servidor'')]
       \<and> network (initializeApp eng api health metrics w) =
           network w @
           [\<lparr>url = BASE_URL api @ HEALTH api, req_method = None,
             req_headers = [(js ''Content-Type'', js ''application/json'')], req_body = None\<rparr>]
       \<and> contact_form (initializeApp eng api health metrics w) = contact_form w
       \<and> chat_form (initializeApp eng api health metrics w) = chat_form w
       \<and> bars (initializeApp eng api health metrics w) = bars w
       \<and> chat_messages (initializeApp eng api health metrics w) = chat_messages w"
  using assms
  by (cases "connection_status w")
    (simp_all add: initializeApp_def checkBackendConnection_def checkHealth_def fetchApi_def
      fetchApi_settle_def fetchApi_call_def no_options_def updateConnectionStatus_def
      initializeApp_catch_def showNotification_error log_error_def log_line_def)

theorem failed_health_check_stops_startup_witness:
  "fetchApi_try sample_engine network_down = Inl (TypeError (js ''Failed to fetch''))
   \<and> connection_status (initializeApp sample_engine sample_api network_down network_down sample_world) =
       Some \<lparr>status_textContent = js ''Sin conexi'' @ [0xF3] @ js ''n al servidor'',
             status_className = js ''status-disconnected''\<rparr>
   \<and> bars (initializeApp sample_engine sample_api network_down network_down sample_world) =
       bars sample_world"
  using failed_health_check_stops_startup
      [OF network_down_fails, of sample_engine sample_api network_down sample_world]
  by (simp add: network_down_fails sample_world_def)

text \<open>
  C1 as stated has the submit handlers bound after a failed health check.  On a page
  with both forms \<^verbatim>\<open>initializeEventListeners\<close> would bind one listener to each; after
  a start-up without network neither form has one.
\<close>

theorem handlers_not_bound_after_failed_health_check:
  "contact_form sample_world = Some 0 \<and> chat_form sample_world = Some 0
   \<and> contact_form (initializeEventListeners sample_world) = Some 1
   \<and> chat_form (initializeEventListeners sample_world) = Some 1
   \<and> contact_form (initializeApp sample_engine sample_api network_down network_down sample_world) = Some 0
   \<and> chat_form (initializeApp sample_engine sample_api network_down network_down sample_world) = Some 0"
  by (simp add: initializeApp_def checkBackendConnection_def checkHealth_def fetchApi_def
      fetchApi_settle_def fetchApi_try_def network_down_def fetchApi_call_def
      updateConnectionStatus_def initializeApp_catch_def showNotification_def log_error_def
      log_line_def initializeEventListeners_def sample_world_def)

section \<open>Metrics\<close>

lemma forEach_total:
  assumes "\<And>j b. f j b = Inr (g j b)"
  shows "forEach f i bs = (map (\<lambda>(j, b). g j b) (enumerate i bs), None)"
  by (induction bs arbitrary: i) (simp_all add: assms)

lemma clamp_Math:
  "Math_max (Fin 5) (Math_min (Fin 100) (Fin v)) = Fin (clamp v 5 100)"
  by (simp add: clamp_def min_def max_def)

lemma update_bar_Obj:
  "update_bar eng (Obj kvs) i b =
     Inr (let value = or_else (case map_of kvs (key_at i) of None \<Rightarrow> Undefined | Some v \<Rightarrow> v) (Num (Fin 50));
              b1 = set_style_height eng (Math_max (Fin 5) (Math_min (Fin 100) (ToNumber eng value))) b
          in b1\<lparr>tip_textContent := map_option (\<lambda>_. percent eng value) (tip_textContent b1)\<rparr>)"
  by (cases "tip_textContent b") (simp_all add: update_bar_def Let_def set_style_height_def)

lemma updateMetricsUI_Obj:
  "updateMetricsUI eng (Obj kvs) w =
     (w\<lparr>bars := map (\<lambda>(i, b). case update_bar eng (Obj kvs) i b of Inr b1 \<Rightarrow> b1 | Inl _ \<Rightarrow> b)
                   (enumerate 0 (bars w))\<rparr>, None)"
proof -
  have "forEach (update_bar eng (Obj kvs)) 0 (bars w) =
      (map (\<lambda>(i, b). case update_bar eng (Obj kvs) i b of Inr b1 \<Rightarrow> b1 | Inl _ \<Rightarrow> b) (enumerate 0 (bars w)), None)"
    by (rule forEach_total) (simp add: update_bar_Obj)
  then show ?thesis by (simp add: updateMetricsUI_def)
qed

lemma updateMetricsUI_Obj_nth:
  assumes "i < length (bars w)"
  shows "update_bar eng (Obj kvs) i (bars w ! i) = Inr (bars (fst (updateMetricsUI eng (Obj kvs) w)) ! i)"
  using assms by (simp add: updateMetricsUI_Obj nth_enumerate_eq update_bar_Obj)

lemma sample_percent:
  "percent sample_engine (Num (Fin 5)) = js ''5%''"
  "percent sample_engine (Num (Fin 50)) = js ''50%''"
  "percent sample_engine (Num (Fin 65)) = js ''65%''"
  "percent sample_engine (Num (Fin 80)) = js ''80%''"
  "percent sample_engine (Num (Fin 90)) = js ''90%''"
  "percent sample_engine (Num (Fin 100)) = js ''100%''"
  "percent sample_engine (Num (Fin 150)) = js ''150%''"
  by (simp_all add: percent_def sample_engine_def decimal.simps js_def)

text \<open>
  C2, as the code has it.  With an object as metrics, for the bar at position \<^verbatim>\<open>i\<close>
  and its key: when the key holds a finite Number \<^verbatim>\<open>v\<close> other than zero, the height
  of the bar is \<^verbatim>\<open>clamp(v, 5, 100)\<close> per cent and the label, if the bar has one, is
  \<^verbatim>\<open>v\<close> itself per cent, not clamped; when the object lacks the key, height and label
  are 50 per cent.
\<close>

theorem truthy_metric_rendering:
  assumes "i < length (bars w)"
  shows "(map_of kvs (key_at i) = Some (Num (Fin v)) \<and> v \<noteq> 0 \<longrightarrow>
            bars (fst (updateMetricsUI eng (Obj kvs) w)) ! i =
              (bars w ! i)\<lparr>style_height := percent eng (Num (Fin (clamp v 5 100))),
                            tip_textContent := map_option (\<lambda>_. percent eng (Num (Fin v)))
                                                 (tip_textContent (bars w ! i))\<rparr>)
       \<and> (map_of kvs (key_at i) = None \<longrightarrow>
            bars (fst (updateMetricsUI eng (Obj kvs) w)) ! i =
              (bars w ! i)\<lparr>style_height := percent eng (Num (Fin 50)),
                            tip_textContent := map_option (\<lambda>_. percent eng (Num (Fin 50)))
                                                 (tip_textContent (bars w ! i))\<rparr>)"
proof (intro conjI impI)
  assume "map_of kvs (key_at i) = Some (Num (Fin v)) \<and> v \<noteq> 0"
  then have "update_bar eng (Obj kvs) i (bars w ! i) =
      Inr ((bars w ! i)\<lparr>style_height := percent eng (Num (Fin (clamp v 5 100))),
                         tip_textContent := map_option (\<lambda>_. percent eng (Num (Fin v)))
                                              (tip_textContent (bars w ! i))\<rparr>)"
    by (simp add: update_bar_Obj or_else_def set_style_height_def clamp_Math Let_def
        del: Math_max.simps Math_min.simps)
  with updateMetricsUI_Obj_nth [OF assms, of eng kvs]
  show "bars (fst (updateMetricsUI eng (Obj kvs) w)) ! i =
      (bars w ! i)\<lparr>style_height := percent eng (Num (Fin (clamp v 5 100))),
                    tip_textContent := map_option (\<lambda>_. percent eng (Num (Fin v)))
                                         (tip_textContent (bars w ! i))\<rparr>"
    by simp
next
  assume "map_of kvs (key_at i) = None"
  then have "update_bar eng (Obj kvs) i (bars w ! i) =
      Inr ((bars w ! i)\<lparr>style_height := percent eng (Num (Fin 50)),
                         tip_textContent := map_option (\<lambda>_. percent eng (Num (Fin 50)))
                                              (tip_textContent (bars w ! i))\<rparr>)"
    by (simp add: update_bar_Obj or_else_def set_style_height_def Let_def)
  with updateMetricsUI_Obj_nth [OF assms, of eng kvs]
  show "bars (fst (updateMetricsUI eng (Obj kvs) w)) ! i =
      (bars w ! i)\<lparr>style_height := percent eng (Num (Fin 50)),
                    tip_textContent := map_option (\<lambda>_. percent eng (Num (Fin 50)))
                                         (tip_textContent (bars w ! i))\<rparr>"
    by simp
qed

theorem truthy_metric_rendering_witness:
  "bars (fst (updateMetricsUI sample_engine
      (Obj [(js ''itse'', Num (Fin 150)), (js ''pozo'', Num (Fin 0))]) sample_world)) ! 0 =
     \<lparr>style_height = js ''100%'', tip_textContent = Some (js ''150%'')\<rparr>
   \<and> bars (fst (updateMetricsUI sample_engine
      (Obj [(js ''itse'', Num (Fin 150)), (js ''pozo'', Num (Fin 0))]) sample_world)) ! 3 =
     \<lparr>style_height = js ''50%'', tip_textContent = Some (js ''50%'')\<rparr>"
  using truthy_metric_rendering
      [of 0 sample_world "[(js ''itse'', Num (Fin 150)), (js ''pozo'', Num (Fin 0))]" 150 sample_engine]
    truthy_metric_rendering
      [of 3 sample_world "[(js ''itse'', Num (Fin 150)), (js ''pozo'', Num (Fin 0))]" 150 sample_engine]
  by (simp add: sample_world_def sample_bar_def key_at_def keys_def js_def percent_def
      sample_engine_def decimal.simps clamp_def)

text \<open>
  C2 as stated gives the label the clamped value.  For the value 150 the label reads
  \<^verbatim>\<open>150%\<close>, while the clamped value gives \<^verbatim>\<open>100%\<close>.
\<close>

theorem label_is_not_clamped:
  "tip_textContent (bars (fst (updateMetricsUI sample_engine
      (Obj [(js ''itse'', Num (Fin 150))]) sample_world)) ! 0) = Some (js ''150%'')
   \<and> percent sample_engine (Num (Fin (clamp 150 5 100))) = js ''100%''
   \<and> tip_textContent (bars (fst (updateMetricsUI sample_engine
      (Obj [(js ''itse'', Num (Fin 150))]) sample_world)) ! 0) \<noteq>
     Some (percent sample_engine (Num (Fin (clamp 150 5 100))))"
  by (simp add: updateMetricsUI_def update_bar_def or_else_def set_style_height_def
      sample_world_def sample_bar_def key_at_def keys_def js_def percent_def
      sample_engine_def decimal.simps clamp_def)

text \<open>
  C10.  A key that holds the Number 0 or NaN is rendered like a key the object lacks:
  height and label are 50 per cent, the same as for the object without that key.
\<close>

theorem falsy_metric_is_missing:
  assumes "i < length (bars w)" and "map_of kvs (key_at i) = Some (Num v)"
    and "v = Fin 0 \<or> v = NaN"
  shows "bars (fst (updateMetricsUI eng (Obj kvs) w)) ! i =
           (bars w ! i)\<lparr>style_height := percent eng (Num (Fin 50)),
                         tip_textContent := map_option (\<lambda>_. percent eng (Num (Fin 50)))
                                              (tip_textContent (bars w ! i))\<rparr>
       \<and> bars (fst (updateMetricsUI eng (Obj kvs) w)) ! i =
           bars (fst (updateMetricsUI eng (Obj (filter (\<lambda>kv. fst kv \<noteq> key_at i) kvs)) w)) ! i"
proof -
  have missing: "map_of (filter (\<lambda>kv. fst kv \<noteq> key_at i) kvs) (key_at i) = None"
    by (induction kvs) auto
  have a: "update_bar eng (Obj kvs) i (bars w ! i) =
      Inr ((bars w ! i)\<lparr>style_height := percent eng (Num (Fin 50)),
                         tip_textContent := map_option (\<lambda>_. percent eng (Num (Fin 50)))
                                              (tip_textContent (bars w ! i))\<rparr>)"
    using assms(2,3)
    by (auto simp add: update_bar_Obj or_else_def set_style_height_def Let_def)
  have b: "update_bar eng (Obj (filter (\<lambda>kv. fst kv \<noteq> key_at i) kvs)) i (bars w ! i) =
      Inr ((bars w ! i)\<lparr>style_height := percent eng (Num (Fin 50)),
                         tip_textContent := map_option (\<lambda>_. percent eng (Num (Fin 50)))
                                              (tip_textContent (bars w ! i))\<rparr>)"
    by (simp add: update_bar_Obj missing or_else_def set_style_height_def Let_def)
  from a b updateMetricsUI_Obj_nth [OF assms(1), of eng kvs]
    updateMetricsUI_Obj_nth [OF assms(1), of eng "filter (\<lambda>kv. fst kv \<noteq> key_at i) kvs"]
  show ?thesis by simp
qed

theorem falsy_metric_is_missing_witness:
  "bars (fst (updateMetricsUI sample_engine
      (Obj [(js ''itse'', Num (Fin 150)), (js ''pozo'', Num (Fin 0))]) sample_world)) ! 1 =
     \<lparr>style_height = js ''50%'', tip_textContent = Some (js ''50%'')\<rparr>
   \<and> bars (fst (updateMetricsUI sample_engine (Obj [(js ''itse'', Num NaN)]) sample_world)) ! 0 =
     \<lparr>style_height = js ''50%'', tip_textContent = Some (js ''50%'')\<rparr>
   \<and> percent sample_engine (Num (Fin (clamp 0 5 100))) = js ''5%''"
  using falsy_metric_is_missing
      [of 1 sample_world "[(js ''itse'', Num (Fin 150)), (js ''pozo'', Num (Fin 0))]" "Fin 0" sample_engine]
    falsy_metric_is_missing
      [of 0 sample_world "[(js ''itse'', Num NaN)]" NaN sample_engine]
  by (simp add: sample_world_def sample_bar_def key_at_def keys_def js_def percent_def
      sample_engine_def decimal.simps clamp_def)

lemma Get_fallback:
  "Get eng fallback_metrics (key_at i) =
     Inr (if i < 4 then Num (Fin ([80, 65, 90, 50] ! i)) else Undefined)"
proof -
  consider "i = 0" | "i = 1" | "i = 2" | "i = 3" | "4 \<le> i" by arith
  then show ?thesis
    by cases (simp_all add: key_at_def keys_def fallback_metrics_def js_def)
qed

lemma update_bar_fallback:
  "update_bar eng fallback_metrics i b =
     Inr (b\<lparr>style_height := percent eng (Num (Fin (if i < 4 then [80, 65, 90, 50] ! i else 50))),
           tip_textContent := map_option
             (\<lambda>_. percent eng (Num (Fin (if i < 4 then [80, 65, 90, 50] ! i else 50))))
             (tip_textContent b)\<rparr>)"
proof -
  consider "i = 0" | "i = 1" | "i = 2" | "i = 3" | "4 \<le> i" by arith
  then show ?thesis
    by cases
      (simp_all add: update_bar_def Get_fallback or_else_def set_style_height_def Let_def
        split: option.split)
qed

lemma updateMetricsUI_fallback:
  "updateMetricsUI eng fallback_metrics w =
     (w\<lparr>bars := map (\<lambda>(i, b).
          b\<lparr>style_height := percent eng (Num (Fin (if i < 4 then [80, 65, 90, 50] ! i else 50))),
            tip_textContent := map_option
              (\<lambda>_. percent eng (Num (Fin (if i < 4 then [80, 65, 90, 50] ! i else 50))))
              (tip_textContent b)\<rparr>) (enumerate 0 (bars w))\<rparr>, None)"
  by (simp add: updateMetricsUI_def forEach_total [OF update_bar_fallback])

lemma loadMetrics_failed:
  assumes "fetchApi_try eng fr = Inl err"
  shows "loadMetrics eng api fr w =
     (w\<lparr>network := network w @
          [\<lparr>url = BASE_URL api @ METRICS api, req_method = None,
            req_headers = [(js ''Content-Type'', js ''application/json'')], req_body = None\<rparr>],
        console := console w @
          [console_error (request_failed_text @ js '':'') err,
           console_error (js ''Error al cargar m'' @ [0xE9] @ js ''tricas:'') err],
        bars := map (\<lambda>(i, b).
          b\<lparr>style_height := percent eng (Num (Fin (if i < 4 then [80, 65, 90, 50] ! i else 50))),
            tip_textContent := map_option
              (\<lambda>_. percent eng (Num (Fin (if i < 4 then [80, 65, 90, 50] ! i else 50))))
              (tip_textContent b)\<rparr>) (enumerate 0 (bars w))\<rparr>,
      None)"
  using assms
  by (simp add: loadMetrics_def getMetrics_def fetchApi_def fetchApi_settle_def
      fetchApi_call_def no_options_def loadMetrics_catch_def updateMetricsUI_fallback
      log_error_def)

text \<open>
  C6.  When the metrics request fails, \<^verbatim>\<open>loadMetrics\<close> throws nothing; every bar shows
  the fallback value of its position (80, 65, 90, 50, and 50 for a bar past the
  fourth) as its height and, if it has one, as its label; the error is logged with
  \<^verbatim>\<open>console.error\<close>, once by \<^verbatim>\<open>fetchApi\<close> and once by the \<^verbatim>\<open>catch\<close> of
  \<^verbatim>\<open>loadMetrics\<close>, and no notification is issued.
\<close>

theorem failed_metrics_show_fallback:
  assumes "fetchApi_try eng fr = Inl err"
  shows "snd (loadMetrics eng api fr w) = None
       \<and> bars (fst (loadMetrics eng api fr w)) =
           map (\<lambda>(i, b).
             b\<lparr>style_height := percent eng (Num (Fin (if i < 4 then [80, 65, 90, 50] ! i else 50))),
               tip_textContent := map_option
                 (\<lambda>_. percent eng (Num (Fin (if i < 4 then [80, 65, 90, 50] ! i else 50))))
                 (tip_textContent b)\<rparr>) (enumerate 0 (bars w))
       \<and> console (fst (loadMetrics eng api fr w)) =
           console w @
           [console_error (request_failed_text @ js '':'') err,
            console_error (js ''Error al cargar m'' @ [0xE9] @ js ''tricas:'') err]"
  by (simp add: loadMetrics_failed [OF assms])

theorem failed_metrics_show_fallback_witness:
  "snd (loadMetrics sample_engine sample_api network_down sample_world) = None
   \<and> bars (fst (loadMetrics sample_engine sample_api network_down sample_world)) =
       [\<lparr>style_height = js ''80%'', tip_textContent = Some (js ''80%'')\<rparr>,
        \<lparr>style_height = js ''65%'', tip_textContent = Some (js ''65%'')\<rparr>,
        \<lparr>style_height = js ''90%'', tip_textContent = None\<rparr>,
        \<lparr>style_height = js ''50%'', tip_textContent = Some (js ''50%'')\<rparr>,
        \<lparr>style_height = js ''50%'', tip_textContent = Some (js ''50%'')\<rparr>]
   \<and> console (fst (loadMetrics sample_engine sample_api network_down sample_world)) =
       [console_error (request_failed_text @ js '':'') (TypeError (js ''Failed to fetch'')),
        console_error (js ''Error al cargar m'' @ [0xE9] @ js ''tricas:'')
          (TypeError (js ''Failed to fetch''))]"
  using failed_metrics_show_fallback
      [OF network_down_fails, of sample_engine sample_api sample_world]
  by (simp add: sample_world_def sample_bar_def sample_percent)

text \<open>
  A failed metrics request does not end the start-up: after a successful health check
  the listeners are bound and the only \<^verbatim>\<open>console.log\<close> line is the one that reports
  the completed initialisation.
\<close>

lemma failed_metrics_do_not_stop_startup:
  assumes "fetchApi_try eng health = Inr v" and "fetchApi_try eng metrics = Inl err"
  shows "contact_form (initializeApp eng api health metrics w) = map_option Suc (contact_form w)
       \<and> chat_form (initializeApp eng api health metrics w) = map_option Suc (chat_form w)
       \<and> console (initializeApp eng api health metrics w) =
           console w @
           [console_error (request_failed_text @ js '':'') err,
            console_error (js ''Error al cargar m'' @ [0xE9] @ js ''tricas:'') err,
            console_log (js ''Aplicaci'' @ [0xF3] @ js ''n inicializada correctamente'')]"
proof -
  have health_ok: "checkBackendConnection eng api health w =
      (updateConnectionStatus True (fetchApi_call api (HEALTH api) no_options w), None)"
    using assms(1)
    by (simp add: checkBackendConnection_def checkHealth_def fetchApi_def fetchApi_settle_def)
  show ?thesis
    using assms(2)
    by (cases "connection_status w"; cases "contact_form w"; cases "chat_form w")
      (simp_all add: initializeApp_def health_ok loadMetrics_failed
        updateConnectionStatus_def fetchApi_call_def initializeEventListeners_def log_line_def)
qed

section \<open>The pattern for email addresses\<close>

lemma nullable_lang: "nullable r \<longleftrightarrow> [] \<in> lang r"
  by (induction r) (auto intro: star.star_nil)

lemma star_Cons:
  "c # s \<in> star A \<longleftrightarrow> (\<exists>u v. s = u @ v \<and> c # u \<in> A \<and> v \<in> star A)"
proof
  assume "c # s \<in> star A"
  then show "\<exists>u v. s = u @ v \<and> c # u \<in> A \<and> v \<in> star A"
  proof (induction "c # s" rule: star.induct)
    case (star_app u v)
    show ?case
    proof (cases u)
      case Nil
      with star_app show ?thesis by simp
    next
      case (Cons d u')
      with star_app have "s = u' @ v" and "c # u' \<in> A" by simp_all
      with star_app(2) show ?thesis by blast
    qed
  qed
next
  assume "\<exists>u v. s = u @ v \<and> c # u \<in> A \<and> v \<in> star A"
  then obtain u v where "s = u @ v" and "c # u \<in> A" and "v \<in> star A" by blast
  then have "(c # u) @ v \<in> star A" by (blast intro: star.star_app)
  with \<open>s = u @ v\<close> show "c # s \<in> star A" by simp
qed

lemma deriv_lang: "s \<in> lang (deriv c r) \<longleftrightarrow> c # s \<in> lang r"
proof (induction r arbitrary: s)
  case (Cat r1 r2)
  show ?case
  proof
    assume "s \<in> lang (deriv c (Cat r1 r2))"
    then consider u v where "s = u @ v" "u \<in> lang (deriv c r1)" "v \<in> lang r2"
      | "nullable r1" "s \<in> lang (deriv c r2)"
      by (auto split: if_splits)
    then show "c # s \<in> lang (Cat r1 r2)"
    proof cases
      case 1
      then have "c # u \<in> lang r1" using Cat.IH(1) by blast
      with 1 have "\<exists>x y. c # s = x @ y \<and> x \<in> lang r1 \<and> y \<in> lang r2"
        by (intro exI [of _ "c # u"] exI [of _ v]) simp
      then show ?thesis by simp
    next
      case 2
      then have "[] \<in> lang r1" and "c # s \<in> lang r2"
        using Cat.IH(2) by (simp_all add: nullable_lang)
      then have "\<exists>x y. c # s = x @ y \<and> x \<in> lang r1 \<and> y \<in> lang r2"
        by (intro exI [of _ "[]"] exI [of _ "c # s"]) simp
      then show ?thesis by simp
    qed
  next
    assume "c # s \<in> lang (Cat r1 r2)"
    then obtain u v where uv: "c # s = u @ v" "u \<in> lang r1" "v \<in> lang r2" by auto
    show "s \<in> lang (deriv c (Cat r1 r2))"
    proof (cases u)
      case Nil
      with uv have "nullable r1" and "s \<in> lang (deriv c r2)"
        using Cat.IH(2) by (simp_all add: nullable_lang)
      then show ?thesis by simp
    next
      case (Cons d u')
      with uv have "s = u' @ v" and "u' \<in> lang (deriv c r1)"
        using Cat.IH(1) by simp_all
      with uv(3) show ?thesis by auto
    qed
  qed
next
  case (Star r)
  then show ?case by (auto simp add: star_Cons)
qed auto

text \<open>\<^verbatim>\<open>regex_test\<close> decides membership in the language of the pattern.\<close>

lemma regex_test_lang: "regex_test r s \<longleftrightarrow> s \<in> lang r"
  by (induction s arbitrary: r) (simp_all add: nullable_lang deriv_lang)

lemma star_Class: "star {[c] | c. P c} = {u. list_all P u}"
proof (intro set_eqI iffI)
  fix u assume "u \<in> star {[c] | c. P c}"
  then show "u \<in> {u. list_all P u}" by (induction rule: star.induct) auto
next
  fix u assume "u \<in> {u. list_all P u}"
  then have "list_all P u" by simp
  then show "u \<in> star {[c] | c. P c}"
  proof (induction u)
    case Nil
    show ?case by (rule star.star_nil)
  next
    case (Cons c u)
    then have "[c] \<in> {[c] | c. P c}" and "u \<in> star {[c] | c. P c}" by simp_all
    then have "[c] @ u \<in> star {[c] | c. P c}" by (rule star.star_app)
    then show ?case by simp
  qed
qed

lemma lang_OneOrMore_Class: "lang (OneOrMore (Class P)) = {u. u \<noteq> [] \<and> list_all P u}"
proof (intro set_eqI iffI)
  fix u assume "u \<in> lang (OneOrMore (Class P))"
  then show "u \<in> {u. u \<noteq> [] \<and> list_all P u}"
    by (auto simp add: OneOrMore_def star_Class)
next
  fix u assume "u \<in> {u. u \<noteq> [] \<and> list_all P u}"
  then obtain c v where "u = [c] @ v" and "P c" and "list_all P v"
    by (cases u) auto
  then show "u \<in> lang (OneOrMore (Class P))"
    by (simp add: OneOrMore_def star_Class del: append.simps) blast
qed

text \<open>
  The strings the pattern of the contact form accepts: three non-empty parts free of
  white space and \<^verbatim>\<open>@\<close>, with \<^verbatim>\<open>@\<close> between the first two and a full stop between
  the last two.
\<close>

lemma lang_CatI: "u \<in> lang r \<Longrightarrow> v \<in> lang t \<Longrightarrow> u @ v \<in> lang (Cat r t)"
  by auto

lemma emailRegex_accepts:
  "regex_test emailRegex s \<longleftrightarrow>
     (\<exists>a b c. s = a @ [0x40] @ b @ [0x2E] @ c
        \<and> a \<noteq> [] \<and> b \<noteq> [] \<and> c \<noteq> []
        \<and> list_all not_space_or_at a \<and> list_all not_space_or_at b \<and> list_all not_space_or_at c)"
proof
  assume "regex_test emailRegex s"
  then have "s \<in> lang emailRegex" by (simp add: regex_test_lang)
  then show "\<exists>a b c. s = a @ [0x40] @ b @ [0x2E] @ c
        \<and> a \<noteq> [] \<and> b \<noteq> [] \<and> c \<noteq> []
        \<and> list_all not_space_or_at a \<and> list_all not_space_or_at b \<and> list_all not_space_or_at c"
    unfolding emailRegex_def lang.simps(5) lang_OneOrMore_Class by auto
next
  assume "\<exists>a b c. s = a @ [0x40] @ b @ [0x2E] @ c
        \<and> a \<noteq> [] \<and> b \<noteq> [] \<and> c \<noteq> []
        \<and> list_all not_space_or_at a \<and> list_all not_space_or_at b \<and> list_all not_space_or_at c"
  then obtain a b c where s: "s = a @ [0x40] @ b @ [0x2E] @ c"
    and a: "a \<in> lang (OneOrMore (Class not_space_or_at))"
    and b: "b \<in> lang (OneOrMore (Class not_space_or_at))"
    and c: "c \<in> lang (OneOrMore (Class not_space_or_at))"
    by (auto simp add: lang_OneOrMore_Class)
  have at: "[0x40] \<in> lang (Class (\<lambda>c. c = 0x40))"
    and dot: "[0x2E] \<in> lang (Class (\<lambda>c. c = 0x2E))"
    by simp_all
  have "a @ [0x40] @ b @ [0x2E] @ c \<in> lang emailRegex"
    unfolding emailRegex_def
    by (intro lang_CatI a b c at dot)
  with s show "regex_test emailRegex s" by (simp add: regex_test_lang)
qed

section \<open>The contact form\<close>

lemma error_message_new_Error:
  "error_message (new_Error eng (Str s)) = s"
  by (simp add: new_Error_def)

lemma validation_texts_nonempty:
  "required_text \<noteq> []" "invalid_email_text \<noteq> []"
  by (simp_all add: required_text_def invalid_email_text_def js_def)

lemma ToBoolean_get_trimmed:
  "ToBoolean (get_trimmed form n) \<longleftrightarrow>
     (\<exists>f. map_of (controls form) n = Some f \<and> trim (field_value f) \<noteq> [])"
  by (simp add: get_trimmed_def split: option.splits)

lemma validate_message_nonempty:
  "validate eng name email phone = Some err \<Longrightarrow> error_message err \<noteq> []"
  by (auto simp add: validate_def error_message_new_Error validation_texts_nonempty split: if_splits)

lemma handleContactSubmit_rejects:
  assumes "error_message err \<noteq> []"
  shows "handleContactSubmit_finally t (handleContactSubmit_catch err (e, w)) =
     (e\<lparr>target := (target e)\<lparr>submit_button :=
           map_option (\<lambda>b. b\<lparr>disabled := False, button_textContent := t\<rparr>) (submit_button (target e))\<rparr>\<rparr>,
      w\<lparr>console := console w @
          [console_error (js ''Error al enviar el formulario:'') err,
           console_log (js ''[ERROR] '' @ error_message err)]\<rparr>)"
  using assms
  by (simp add: handleContactSubmit_catch_def handleContactSubmit_finally_def
      showNotification_error log_line_def log_error_def)

text \<open>
  C4.  Let the form have a submit button.  When the trimmed name, email or phone is
  empty or missing, or the trimmed email does not match the pattern, the handler makes
  no request: it logs the validation error, issues the notification \<^verbatim>\<open>[ERROR]\<close>
  with the message of that error, leaves the rest of the page as it was and the button
  enabled with its label.
\<close>

theorem invalid_contact_is_not_sent:
  assumes "submit_button (target e) = Some b"
    and "\<not> ToBoolean (get_trimmed (target e) (js ''name''))
         \<or> \<not> ToBoolean (get_trimmed (target e) (js ''email''))
         \<or> \<not> ToBoolean (get_trimmed (target e) (js ''phone''))
         \<or> \<not> regex_test emailRegex (ToString eng (get_trimmed (target e) (js ''email'')))"
  shows "handleContactSubmit eng api fr e w =
     ((e\<lparr>defaultPrevented := True,
          target := (target e)\<lparr>submit_button := Some (b\<lparr>disabled := False\<rparr>)\<rparr>\<rparr>,
       w\<lparr>console := console w @
          (let msg = (if \<not> ToBoolean (get_trimmed (target e) (js ''name''))
                         \<or> \<not> ToBoolean (get_trimmed (target e) (js ''email''))
                         \<or> \<not> ToBoolean (get_trimmed (target e) (js ''phone''))
                      then required_text else invalid_email_text)
           in [console_error (js ''Error al enviar el formulario:'') (new_Error eng (Str msg)),
               console_log (js ''[ERROR] '' @ msg)])\<rparr>),
      None)"
  using assms
  by (auto simp add: handleContactSubmit_def handleContactSubmit_begin_def Let_def validate_def
      handleContactSubmit_rejects error_message_new_Error validation_texts_nonempty)

theorem invalid_contact_is_not_sent_witness:
  "handleContactSubmit sample_engine sample_api network_down
      (contact_event (js ''Ana'') (js ''ana@example'') (js ''999'') []) sample_world =
     ((contact_event (js ''Ana'') (js ''ana@example'') (js ''999'') []\<lparr>defaultPrevented := True\<rparr>,
       sample_world\<lparr>console :=
          [console_error (js ''Error al enviar el formulario:'')
             (new_Error sample_engine (Str invalid_email_text)),
           console_log (js ''[ERROR] '' @ invalid_email_text)]\<rparr>),
      None)
   \<and> network (snd (fst (handleContactSubmit sample_engine sample_api network_down
      (contact_event (js ''Ana'') (js ''  '') (js ''999'') []) sample_world))) = []"
  using invalid_contact_is_not_sent
      [of "contact_event (js ''Ana'') (js ''ana@example'') (js ''999'') []"
          "\<lparr>disabled = False, button_textContent = js ''Enviar''\<rparr>"
          sample_engine sample_api network_down sample_world]
    invalid_contact_is_not_sent
      [of "contact_event (js ''Ana'') (js ''  '') (js ''999'') []"
          "\<lparr>disabled = False, button_textContent = js ''Enviar''\<rparr>"
          sample_engine sample_api network_down sample_world]
  by (simp add: contact_event_def text_field_def get_trimmed_def trim_def is_space_def
      emailRegex_def OneOrMore_def not_space_or_at_def sample_world_def js_def)


lemma handleContactSubmit_resume_ok:
  assumes "fetchApi_try eng fr = Inr v"
  shows "handleContactSubmit_resume eng t fr (e, w) =
     (e\<lparr>target := (target e)
          \<lparr>controls := controls (reset (target e)),
           submit_button := map_option (\<lambda>b. b\<lparr>disabled := False, button_textContent := t\<rparr>)
                              (submit_button (target e))\<rparr>\<rparr>,
      w\<lparr>console := console w @ [console_log (js ''[SUCCESS] '' @ sent_text)]\<rparr>)"
  using assms
  by (simp add: handleContactSubmit_resume_def fetchApi_settle_def
      handleContactSubmit_finally_def showNotification_success log_line_def reset_def)

lemma handleContactSubmit_resume_failed:
  assumes "fetchApi_try eng fr = Inl err"
  shows "handleContactSubmit_resume eng t fr (e, w) =
     (e\<lparr>target := (target e)
          \<lparr>submit_button := map_option (\<lambda>b. b\<lparr>disabled := False, button_textContent := t\<rparr>)
                              (submit_button (target e))\<rparr>\<rparr>,
      w\<lparr>console := console w @
          [console_error (request_failed_text @ js '':'') err,
           console_error (js ''Error al enviar el formulario:'') err,
           console_log (js ''[ERROR] '' @
              (if error_message err \<noteq> [] then error_message err else send_failed_text))]\<rparr>)"
  using assms
  by (simp add: handleContactSubmit_resume_def fetchApi_settle_def
      handleContactSubmit_finally_def handleContactSubmit_catch_def
      showNotification_error log_line_def log_error_def)

text \<open>
  C5.  Let the form have a submit button.  When the input is valid, the handler waits
  for the request with the button disabled and labelled \<^verbatim>\<open>Enviando...\<close>, the
  controls unchanged.  However the handler ends (validation error, failed request,
  success), the button is enabled and has the label it had before, and the handler's
  promise is fulfilled.  The controls are reset exactly when the input is valid and
  the request succeeds; otherwise they keep their values.
\<close>

theorem submit_button_restored:
  assumes "submit_button (target e) = Some b"
  shows "(validate eng (get_trimmed (target e) (js ''name'')) (get_trimmed (target e) (js ''email''))
             (get_trimmed (target e) (js ''phone'')) = None \<longrightarrow>
          (\<exists>e1 w1. handleContactSubmit_begin eng api e w = Awaiting (button_textContent b) (e1, w1)
             \<and> submit_button (target e1) =
                 Some \<lparr>disabled = True, button_textContent = js ''Enviando...''\<rparr>
             \<and> controls (target e1) = controls (target e)))
       \<and> submit_button (target (fst (fst (handleContactSubmit eng api fr e w)))) =
             Some \<lparr>disabled = False, button_textContent = button_textContent b\<rparr>
       \<and> controls (target (fst (fst (handleContactSubmit eng api fr e w)))) =
             (if validate eng (get_trimmed (target e) (js ''name''))
                   (get_trimmed (target e) (js ''email'')) (get_trimmed (target e) (js ''phone'')) = None
                 \<and> \<not> isl (fetchApi_try eng fr)
              then controls (reset (target e)) else controls (target e))
       \<and> snd (handleContactSubmit eng api fr e w) = None"
proof (cases "validate eng (get_trimmed (target e) (js ''name''))
    (get_trimmed (target e) (js ''email'')) (get_trimmed (target e) (js ''phone''))")
  case None
  show ?thesis
  proof (cases "fetchApi_try eng fr")
    case (Inl err)
    with None assms show ?thesis
      by (simp add: handleContactSubmit_def handleContactSubmit_begin_def Let_def
          handleContactSubmit_resume_failed)
  next
    case (Inr v)
    with None assms show ?thesis
      by (simp add: handleContactSubmit_def handleContactSubmit_begin_def Let_def
          handleContactSubmit_resume_ok reset_def)
  qed
next
  case (Some err)
  with assms validate_message_nonempty [OF Some] show ?thesis
    by (simp add: handleContactSubmit_def handleContactSubmit_begin_def Let_def
        handleContactSubmit_rejects)
qed

lemma sample_lead_valid:
  "validate sample_engine (Str (trim (js ''Ana''))) (Str (trim (js ''ana@example.com'')))
     (Str (trim (js ''999''))) = None"
  by (simp add: validate_def trim_def is_space_def emailRegex_def OneOrMore_def
      not_space_or_at_def js_def)

theorem submit_button_restored_witness:
  "submit_button (target (fst (fst (handleContactSubmit sample_engine sample_api
       (replied 201 (Obj []))
       (contact_event (js ''Ana'') (js ''ana@example.com'') (js ''999'') (js ''Hola'')) sample_world)))) =
     Some \<lparr>disabled = False, button_textContent = js ''Enviar''\<rparr>
   \<and> controls (target (fst (fst (handleContactSubmit sample_engine sample_api
       (replied 201 (Obj []))
       (contact_event (js ''Ana'') (js ''ana@example.com'') (js ''999'') (js ''Hola'')) sample_world)))) =
     [(js ''name'', text_field []), (js ''email'', text_field []),
      (js ''phone'', text_field []), (js ''message'', text_field [])]
   \<and> controls (target (fst (fst (handleContactSubmit sample_engine sample_api
       network_down
       (contact_event (js ''Ana'') (js ''ana@example.com'') (js ''999'') (js ''Hola'')) sample_world)))) =
     [(js ''name'', text_field (js ''Ana'')), (js ''email'', text_field (js ''ana@example.com'')),
      (js ''phone'', text_field (js ''999'')), (js ''message'', text_field (js ''Hola''))]"
  using submit_button_restored
      [of "contact_event (js ''Ana'') (js ''ana@example.com'') (js ''999'') (js ''Hola'')"
          "\<lparr>disabled = False, button_textContent = js ''Enviar''\<rparr>"
          sample_engine sample_api sample_world "replied 201 (Obj [])"]
    submit_button_restored
      [of "contact_event (js ''Ana'') (js ''ana@example.com'') (js ''999'') (js ''Hola'')"
          "\<lparr>disabled = False, button_textContent = js ''Enviar''\<rparr>"
          sample_engine sample_api sample_world network_down]
    sample_lead_valid
  by (simp add: contact_event_def text_field_def get_trimmed_def reset_def
      fetchApi_try_def replied_def ok_def network_down_def js_def)

section \<open>The chat\<close>

lemma escape_unit_no_markup:
  "0x3C \<notin> set (escape_unit c) \<and> 0x3E \<notin> set (escape_unit c)"
  by (simp add: escape_unit_def js_def)

lemma escapeHtml_no_markup:
  "0x3C \<notin> set (escapeHtml eng text) \<and> 0x3E \<notin> set (escapeHtml eng text)"
  by (simp add: escapeHtml_def escape_unit_no_markup)

text \<open>
  Escaping loses nothing: an escaped unit can be read off the front of the markup, so
  two texts with the same escaped form are the same text.
\<close>

lemma escape_unit_inj_prefix:
  assumes "escape_unit c @ u = escape_unit d @ v"
  shows "c = d \<and> u = v"
proof -
  consider "c = 0x26" | "c = 0x3C" | "c = 0x3E" | "c = 0xA0"
    | "c \<noteq> 0x26" "c \<noteq> 0x3C" "c \<noteq> 0x3E" "c \<noteq> 0xA0" by blast
  then show ?thesis
  proof cases
    case 5
    with assms show ?thesis
      by (simp add: escape_unit_def js_def split: if_splits)
  qed (use assms in \<open>simp_all add: escape_unit_def js_def split: if_splits\<close>)
qed

lemma escape_text_inj:
  "concat (map escape_unit s) = concat (map escape_unit t) \<Longrightarrow> s = t"
proof (induction s arbitrary: t)
  case Nil
  then show ?case
    by (cases t) (auto simp add: escape_unit_def js_def split: if_splits)
next
  case (Cons c s)
  show ?case
  proof (cases t)
    case Nil
    with Cons.prems show ?thesis
      by (auto simp add: escape_unit_def js_def split: if_splits)
  next
    case (Cons d t')
    with Cons.prems have "escape_unit c @ concat (map escape_unit s) =
        escape_unit d @ concat (map escape_unit t')" by simp
    then have "c = d" and "concat (map escape_unit s) = concat (map escape_unit t')"
      using escape_unit_inj_prefix by blast+
    with Cons.IH Cons show ?thesis by simp
  qed
qed

lemma escapeHtml_inj:
  "escapeHtml eng (Str s) = escapeHtml eng (Str t) \<Longrightarrow> s = t"
  by (simp add: escapeHtml_def escape_text_inj)

text \<open>
  C9.  On a page with a transcript, \<^verbatim>\<open>appendMessage\<close> adds one entry whose text is
  \<^verbatim>\<open>escapeHtml(text)\<close>, for every text and every sender, and the escaped text holds
  neither \<^verbatim>\<open><\<close> (U+003C) nor \<^verbatim>\<open>>\<close> (U+003E): no tag can start in it.
\<close>

theorem appendMessage_escapes:
  assumes "chat_messages w = Some children"
  shows "chat_messages (appendMessage eng text sender w) =
           Some (children @ [Message (js ''chat-message '' @ sender) (escapeHtml eng text) (now w)])
         \<and> 0x3C \<notin> set (escapeHtml eng text) \<and> 0x3E \<notin> set (escapeHtml eng text)"
  using assms by (simp add: appendMessage_def escapeHtml_no_markup)

theorem appendMessage_escapes_witness:
  "chat_messages sample_world = Some []
   \<and> chat_messages (appendMessage sample_engine (Str (js ''<script>'')) (js ''bot'') sample_world) =
       Some [Message (js ''chat-message bot'') (js ''&lt;script&gt;'') (js ''10:30'')]"
  using appendMessage_escapes [of sample_world "[]" sample_engine "Str (js ''<script>'')" "js ''bot''"]
  by (simp add: sample_world_def escapeHtml_def escape_unit_def js_def)

text \<open>
  C8.  When the text of the chat input trims to the empty string, \<^verbatim>\<open>handleChatSubmit\<close>
  only prevents the default submission: the page, the transcript, the console and the
  list of requests are what they were, and the input keeps its value.
\<close>

theorem whitespace_chat_is_noop:
  assumes "input_value (target e) = Some v" and "trim v = []"
  shows "handleChatSubmit eng api fr e w = ((e\<lparr>defaultPrevented := True\<rparr>, w), None)"
  using assms by (simp add: handleChatSubmit_def handleChatSubmit_begin_def)

theorem whitespace_chat_is_noop_witness:
  "trim (js ''   '') = []
   \<and> handleChatSubmit sample_engine sample_api network_down (chat_event (js ''   '')) sample_world =
       ((chat_event (js ''   '')\<lparr>defaultPrevented := True\<rparr>, sample_world), None)"
  using whitespace_chat_is_noop
    [of "chat_event (js ''   '')" "js ''   ''" sample_engine sample_api network_down sample_world]
  by (simp add: chat_event_def trim_def is_space_def js_def)

lemma handleChatSubmit_begin_sends:
  assumes "input_value (target e) = Some v" and "trim v \<noteq> []"
  shows "handleChatSubmit_begin eng api e w =
     Awaiting ()
       (e\<lparr>defaultPrevented := True, target := (target e)\<lparr>input_value := Some []\<rparr>\<rparr>,
        sendChatMessage_call api (trim v) True
          (showTypingIndicator (appendMessage eng (Str (trim v)) (js ''user'') w)))"
  using assms by (simp add: handleChatSubmit_begin_def Let_def)

lemma sendChatMessage_call_frame:
  "chat_messages (sendChatMessage_call api m u w) = chat_messages w"
  "now (sendChatMessage_call api m u w) = now w"
  by (simp_all add: sendChatMessage_call_def fetchApi_call_def)

text \<open>
  The resumed handler on any page with a transcript, also one that other submissions
  have changed in the meantime: one bot entry is appended and the first indicator is
  removed (the first two when reading \<^verbatim>\<open>response.reply\<close> throws, since the \<^verbatim>\<open>catch\<close>
  hides the indicator once more).
\<close>

lemma handleChatSubmit_resume_transcript:
  assumes "chat_messages w = Some ns"
  shows "chat_messages (snd (handleChatSubmit_resume eng fr (e, w))) =
     Some ((case fetchApi_try eng fr of
              Inl _ \<Rightarrow> remove1 TypingIndicator ns
            | Inr response \<Rightarrow>
                (case Get eng response (js ''reply'') of
                   Inl _ \<Rightarrow> remove1 TypingIndicator (remove1 TypingIndicator ns)
                 | Inr _ \<Rightarrow> remove1 TypingIndicator ns))
           @ [Message (js ''chat-message '' @ js ''bot'')
                (escapeHtml eng
                   (case fetchApi_try eng fr of
                      Inl _ \<Rightarrow> Str chat_fallback_text
                    | Inr response \<Rightarrow>
                        (case Get eng response (js ''reply'') of
                           Inl _ \<Rightarrow> Str chat_fallback_text
                         | Inr reply \<Rightarrow> reply)))
                (now w)])"
  using assms
  by (simp add: handleChatSubmit_resume_def fetchApi_settle_def handleChatSubmit_catch_def
      hideTypingIndicator_def appendMessage_def log_error_def split: sum.split)

lemma no_content_succeeds: "fetchApi_try eng no_content = Inr (Val Null)"
  by (simp add: fetchApi_try_def no_content_def ok_def)

lemma escapeHtml_fallback: "escapeHtml eng (Str chat_fallback_text) = chat_fallback_text"
  by (simp add: escapeHtml_def chat_fallback_text_def escape_unit_def js_def)

lemma escapeHtml_Hola: "escapeHtml eng (Str (js ''Hola'')) = js ''Hola''"
  by (simp add: escapeHtml_def escape_unit_def js_def)

lemma trim_Hola: "trim (js ''Hola'') = js ''Hola''" "js ''Hola'' \<noteq> []"
  by (simp_all add: trim_def is_space_def js_def)

text \<open>
  C3, as the code has it.  Let the chat form have a text input whose value does not
  trim to the empty string, and let the page have a transcript with no typing
  indicator in it.  When the handler reaches its \<^verbatim>\<open>await\<close>, the transcript has gained
  one user entry with the escaped trimmed text, followed by the typing indicator, the
  input is empty and the request is on its way.  When the handler has finished, the
  transcript is the former one plus that user entry plus exactly one bot entry, the
  indicator is gone, and the handler's promise is fulfilled.  The bot entry holds the
  escaped \<^verbatim>\<open>reply\<close> of the response when \<^verbatim>\<open>fetchApi\<close> returned a value other than
  \<^verbatim>\<open>null\<close>, and the escaped fallback text when \<^verbatim>\<open>fetchApi\<close> failed or returned
  \<^verbatim>\<open>null\<close> (status 204, or a body \<^verbatim>\<open>null\<close>), where reading \<^verbatim>\<open>response.reply\<close> throws.
\<close>

theorem chat_submission_transcript:
  assumes "input_value (target e) = Some v" and "trim v \<noteq> []"
    and "chat_messages w = Some children" and "TypingIndicator \<notin> set children"
  shows "(case handleChatSubmit_begin eng api e w of
            Settled s r \<Rightarrow> False
          | Awaiting k s \<Rightarrow>
              chat_messages (snd s) =
                Some (children @
                  [Message (js ''chat-message '' @ js ''user'') (escapeHtml eng (Str (trim v))) (now w),
                   TypingIndicator])
              \<and> input_value (target (fst s)) = Some []
              \<and> network (snd s) =
                  network w @
                  [\<lparr>url = BASE_URL api @ CHAT api, req_method = Some (js ''POST''),
                    req_headers = [(js ''Content-Type'', js ''application/json'')],
                    req_body = Some (Obj [(js ''message'', Str (trim v)), (js ''use_ai'', Bool True)])\<rparr>])
       \<and> chat_messages (snd (fst (handleChatSubmit eng api fr e w))) =
           Some (children @
             [Message (js ''chat-message '' @ js ''user'') (escapeHtml eng (Str (trim v))) (now w),
              Message (js ''chat-message '' @ js ''bot'')
                (escapeHtml eng
                   (case fetchApi_try eng fr of
                      Inl _ \<Rightarrow> Str chat_fallback_text
                    | Inr response \<Rightarrow>
                        (case Get eng response (js ''reply'') of
                           Inl _ \<Rightarrow> Str chat_fallback_text
                         | Inr reply \<Rightarrow> reply)))
                (now w)])
       \<and> snd (handleChatSubmit eng api fr e w) = None"
proof -
  let ?user = "Message (js ''chat-message '' @ js ''user'') (escapeHtml eng (Str (trim v))) (now w)"
  let ?w1 = "sendChatMessage_call api (trim v) True
          (showTypingIndicator (appendMessage eng (Str (trim v)) (js ''user'') w))"
  have started: "handleChatSubmit_begin eng api e w =
     Awaiting ()
       (e\<lparr>defaultPrevented := True, target := (target e)\<lparr>input_value := Some []\<rparr>\<rparr>, ?w1)"
    using assms(1,2) by (rule handleChatSubmit_begin_sends)
  have msgs: "chat_messages ?w1 = Some (children @ [?user, TypingIndicator])"
    using assms(3)
    by (simp add: sendChatMessage_call_frame showTypingIndicator_def appendMessage_def)
  have now1: "now ?w1 = now w"
    using assms(3)
    by (simp add: sendChatMessage_call_frame showTypingIndicator_def appendMessage_def)
  have net: "network ?w1 = network w @
      [\<lparr>url = BASE_URL api @ CHAT api, req_method = Some (js ''POST''),
        req_headers = [(js ''Content-Type'', js ''application/json'')],
        req_body = Some (Obj [(js ''message'', Str (trim v)), (js ''use_ai'', Bool True)])\<rparr>]"
    using assms(3)
    by (simp add: sendChatMessage_call_def fetchApi_call_def post_def showTypingIndicator_def
        appendMessage_def)
  have rm: "remove1 TypingIndicator (children @ [?user, TypingIndicator]) = children @ [?user]"
    using assms(4) by (simp add: remove1_append)
  have rm2: "remove1 TypingIndicator (children @ [?user]) = children @ [?user]"
    using assms(4) by (simp add: remove1_append)
  show ?thesis
    using handleChatSubmit_resume_transcript [OF msgs, of eng fr
        "e\<lparr>defaultPrevented := True, target := (target e)\<lparr>input_value := Some []\<rparr>\<rparr>"]
    by (simp add: started msgs net now1 rm rm2 handleChatSubmit_def split: sum.split)
qed

theorem chat_submission_transcript_witness:
  "chat_messages (snd (fst (handleChatSubmit sample_engine sample_api
       (replied 200 (Obj [(js ''reply'', Str (js ''Hola''))])) (chat_event (js ''Hola'')) sample_world))) =
     Some [Message (js ''chat-message '' @ js ''user'') (js ''Hola'') (js ''10:30''),
           Message (js ''chat-message '' @ js ''bot'') (js ''Hola'') (js ''10:30'')]
   \<and> chat_messages (snd (fst (handleChatSubmit sample_engine sample_api
       network_down (chat_event (js ''Hola'')) sample_world))) =
     Some [Message (js ''chat-message '' @ js ''user'') (js ''Hola'') (js ''10:30''),
           Message (js ''chat-message '' @ js ''bot'') chat_fallback_text (js ''10:30'')]"
  using chat_submission_transcript
      [of "chat_event (js ''Hola'')" "js ''Hola''" sample_world "[]" sample_engine sample_api
          "replied 200 (Obj [(js ''reply'', Str (js ''Hola''))])"]
    chat_submission_transcript
      [of "chat_event (js ''Hola'')" "js ''Hola''" sample_world "[]" sample_engine sample_api
          network_down]
  by (simp add: chat_event_def trim_Hola sample_world_def escapeHtml_Hola escapeHtml_fallback
      fetchApi_try_def replied_def ok_def network_down_def)

text \<open>
  C3 as stated gives the server's reply whenever the call succeeds.  A response with
  status 204 makes \<^verbatim>\<open>fetchApi\<close> return \<^verbatim>\<open>null\<close>: the call succeeds, and the bot
  entry is the fallback text.
\<close>

theorem reply_missing_on_no_content:
  "fetchApi_try sample_engine no_content = Inr (Val Null)
   \<and> chat_messages (snd (fst (handleChatSubmit sample_engine sample_api no_content
         (chat_event (js ''Hola'')) sample_world))) =
       Some [Message (js ''chat-message '' @ js ''user'') (js ''Hola'') (js ''10:30''),
             Message (js ''chat-message '' @ js ''bot'') chat_fallback_text (js ''10:30'')]"
  by (simp add: no_content_succeeds handleChatSubmit_def handleChatSubmit_begin_def Let_def
      handleChatSubmit_resume_def handleChatSubmit_catch_def fetchApi_settle_def
      sendChatMessage_call_def fetchApi_call_def showTypingIndicator_def hideTypingIndicator_def
      appendMessage_def log_error_def chat_event_def trim_Hola sample_world_def
      escapeHtml_Hola escapeHtml_fallback TypeError_def)


end
